theory Spec2Isabelle
  imports Complex_Main
begin

section \<open>Values of the JavaScript runtime\<close>

text \<open>
  A JavaScript \<open>number\<close> is an IEEE-754 double. It is represented by the exact value it
  denotes: \<open>Fin q\<close> for a finite double of rational value \<open>q\<close> (the two zeros are both
  \<open>Fin 0\<close>: the code below never tells them apart), the two infinities, and \<open>NaN\<close>.
  Comparisons of doubles are exact, so they are defined here. Everything of the runtime that
  rounds (parsing a string, multiplying, dividing, printing) is not defined here but taken
  as a parameter, in the record \<open>js_lib\<close>: what is proved holds for every behaviour of
  these primitives.
\<close>

datatype jsnum = NaN | NegInf | Fin rat | PosInf

fun js_lt :: "jsnum \<Rightarrow> jsnum \<Rightarrow> bool" where
  "js_lt NaN _ = False"
| "js_lt _ NaN = False"
| "js_lt _ NegInf = False"
| "js_lt NegInf _ = True"
| "js_lt PosInf _ = False"
| "js_lt (Fin _) PosInf = True"
| "js_lt (Fin a) (Fin b) = (a < b)"

fun js_eq :: "jsnum \<Rightarrow> jsnum \<Rightarrow> bool" where
  "js_eq NaN _ = False"
| "js_eq _ NaN = False"
| "js_eq a b = (a = b)"

definition js_le :: "jsnum \<Rightarrow> jsnum \<Rightarrow> bool" where
  "js_le a b = (js_lt a b \<or> js_eq a b)"

definition js_gt :: "jsnum \<Rightarrow> jsnum \<Rightarrow> bool" where
  "js_gt a b = js_lt b a"

text \<open>\<open>x || 0\<close> on numbers: \<open>NaN\<close> and zero are falsy.\<close>

definition num_or_zero :: "jsnum \<Rightarrow> jsnum" where
  "num_or_zero x = (if x = NaN \<or> x = Fin 0 then Fin 0 else x)"

text \<open>
  The primitives of the runtime and of the \<open>viem\<close> library the hooks call.
  \<open>parseUnits s d\<close> is \<open>None\<close> where the library throws.
\<close>

record js_lib =
  parseFloat :: "string \<Rightarrow> jsnum"
  parseUnits :: "string \<Rightarrow> nat \<Rightarrow> int option"
  fmul :: "jsnum \<Rightarrow> jsnum \<Rightarrow> jsnum"
  fdiv :: "jsnum \<Rightarrow> jsnum \<Rightarrow> jsnum"
  fsub :: "jsnum \<Rightarrow> jsnum \<Rightarrow> jsnum"
  toFixed :: "jsnum \<Rightarrow> nat \<Rightarrow> string"
  toExponential :: "jsnum \<Rightarrow> nat \<Rightarrow> string"

text \<open>
  A value read from the chain (\<open>useReadContract\<close>) is a \<open>uint256\<close> once it has arrived and
  \<open>undefined\<close> before: a \<open>nat option\<close>. The bigint \<open>0n\<close> is falsy, as \<open>undefined\<close> is.
\<close>

definition falsy_big :: "nat option \<Rightarrow> bool" where
  "falsy_big v = (case v of None \<Rightarrow> True | Some n \<Rightarrow> n = 0)"

text \<open>\<open>v || 0n\<close>.\<close>

definition big_or_zero :: "nat option \<Rightarrow> nat" where
  "big_or_zero v = (case v of None \<Rightarrow> 0 | Some n \<Rightarrow> n)"

text \<open>
  Division of bigints truncates towards zero (the divisor is never zero below), and
  \<open>BigInt(x)\<close> throws a \<open>RangeError\<close> unless the number \<open>x\<close> is a whole number.
\<close>

definition big_div :: "int \<Rightarrow> int \<Rightarrow> int" where
  "big_div a b = sgn a * sgn b * (\<bar>a\<bar> div \<bar>b\<bar>)"

fun to_bigint :: "jsnum \<Rightarrow> int option" where
  "to_bigint (Fin q) = (if of_int \<lfloor>q\<rfloor> = q then Some \<lfloor>q\<rfloor> else None)"
| "to_bigint _ = None"

section \<open>Strings\<close>

text \<open>
  Strings are lists of characters. \<open>toLowerCase\<close> is modelled on the ASCII letters, which
  is all an address (\<open>0x\<close> and hexadecimal digits) holds. \<open>str_lt\<close> is the order of
  \<open>Array.prototype.sort\<close> without a comparator: by code units, a proper prefix first.
\<close>

definition toLower :: "char \<Rightarrow> char" where
  "toLower c =
     (let n = (of_char c :: nat) in if 65 \<le> n \<and> n \<le> 90 then char_of (n + 32) else c)"

definition toLowerCase :: "string \<Rightarrow> string" where
  "toLowerCase s = map toLower s"

fun str_lt :: "string \<Rightarrow> string \<Rightarrow> bool" where
  "str_lt [] [] = False"
| "str_lt [] (y # ys) = True"
| "str_lt (x # xs) [] = False"
| "str_lt (x # xs) (y # ys) =
     ((of_char x :: nat) < of_char y \<or> (x = y \<and> str_lt xs ys))"

text \<open>\<open>[a, b].sort()\<close>: the two elements are swapped when the second is smaller.\<close>

definition sort2 :: "string \<Rightarrow> string \<Rightarrow> string \<times> string" where
  "sort2 a b = (if str_lt b a then (b, a) else (a, b))"

fun starts_with :: "string \<Rightarrow> string \<Rightarrow> bool" where
  "starts_with s [] = True"
| "starts_with [] (t # ts) = False"
| "starts_with (c # cs) (t # ts) = (c = t \<and> starts_with cs ts)"

text \<open>\<open>s.includes(t)\<close>: \<open>t\<close> occurs in \<open>s\<close> as a contiguous substring.\<close>

fun str_includes :: "string \<Rightarrow> string \<Rightarrow> bool" where
  "str_includes [] t = (t = [])"
| "str_includes (c # cs) t = (starts_with (c # cs) t \<or> str_includes cs t)"

text \<open>\<open>a || b\<close> on a string that may be \<open>undefined\<close>: the empty string is falsy.\<close>

definition str_or :: "string option \<Rightarrow> string \<Rightarrow> string" where
  "str_or a b = (case a of None \<Rightarrow> b | Some s \<Rightarrow> if s = [] then b else s)"

definition falsy_str :: "string option \<Rightarrow> bool" where
  "falsy_str a = (case a of None \<Rightarrow> True | Some s \<Rightarrow> s = [])"

text \<open>A number in a template literal: its decimal digits.\<close>

definition digit_char :: "nat \<Rightarrow> char" where
  "digit_char d = ''0123456789'' ! d"

fun show_nat :: "nat \<Rightarrow> string" where
  "show_nat n =
     (if n < 10 then [digit_char n] else show_nat (n div 10) @ [digit_char (n mod 10)])"

section \<open>Effects\<close>

text \<open>
  What a hook does besides returning is recorded as a list of effects, in the order the
  code performs them: the requests to the RPC node and to the wallet, the waits, and the
  updates of the hook's React state. An \<open>await\<close> is sequential, so the code between two
  awaits is the code between two effects.
\<close>

record js_error =
  shortMessage :: "string option"
  message :: "string option"

datatype js_exn =
    Error string
  | InvalidDecimalNumberError string
  | RangeError

datatype block_tag = Latest | Pending

datatype arg = Addr string | Big int

record contract_call =
  target :: string
  functionName :: string
  args :: "arg list"
  callValue :: "int option"
  gas :: "nat option"
  nonce :: "nat option"
  gasPrice :: "nat option"

datatype effect =
    ReadContract string string "arg list"
  | GetTransactionCount string block_tag
  | EstimateContractGas contract_call
  | GetGasPrice
  | WriteContract contract_call
  | WaitForTx string nat
  | Sleep nat
  | SetIsProcessing bool
  | SetTxError "string option"
  | SetIsSuccess bool
  | SetTxHash string
  | SetPoolError "string option"
  | SetPoolVerified bool

section \<open>useStake\<close>

record tx_result =
  success :: bool
  hash :: "string option"
  error :: "string option"

definition failure :: "string \<Rightarrow> tx_result" where
  "failure msg = \<lparr>success = False, hash = None, error = Some msg\<rparr>"

text \<open>
  What the hook closes over: the wallet and RPC clients (present or not), the connected
  account, the MasterChef configuration of the pool, and the state of the render in which
  the callback was made (\<open>poolVerified\<close>, \<open>poolError\<close>, and the two values read from the
  LP token, \<open>undefined\<close> until they arrive).
\<close>

record stake_ctx =
  walletClient :: bool
  publicClient :: bool
  account :: "string option"
  chef :: string
  pid :: nat
  lpToken :: string
  poolVerified :: bool
  poolError :: "string option"
  allowance :: "nat option"
  lpBalance :: "nat option"

definition connected :: "stake_ctx \<Rightarrow> bool" where
  "connected ctx = (publicClient ctx \<and> \<not> falsy_str (account ctx))"

definition ZERO_ADDRESS :: string where
  "ZERO_ADDRESS = ''0x0000000000000000000000000000000000000000''"

subsection \<open>getFreshNonce, estimateGasWithBuffer\<close>

definition getFreshNonce :: "stake_ctx \<Rightarrow> js_error + nat \<Rightarrow> effect list \<times> (js_error + nat)" where
  "getFreshNonce ctx resp =
     (if \<not> connected ctx
      then ([], Inl \<lparr>shortMessage = None, message = Some ''Not connected''\<rparr>)
      else ([GetTransactionCount (str_or (account ctx) []) Pending], resp))"

definition estimateGasWithBuffer ::
  "stake_ctx \<Rightarrow> string \<Rightarrow> string \<Rightarrow> arg list \<Rightarrow> js_error + nat \<Rightarrow> effect list \<times> nat" where
  "estimateGasWithBuffer ctx contractAddress fname as resp =
     (if \<not> connected ctx then ([], 500000)
      else ([EstimateContractGas
               \<lparr>target = contractAddress, functionName = fname, args = as,
                callValue = None, gas = None, nonce = None, gasPrice = None\<rparr>],
            (case resp of
               Inr estimated \<Rightarrow> (estimated * 180) div 100
             | Inl _ \<Rightarrow> 500000)))"

subsection \<open>verifyPool\<close>

record pool_env =
  poolLength_resp :: "js_error + nat"
  poolInfo_resp :: "js_error + string \<times> nat"

definition verification_failed :: "js_error \<Rightarrow> string" where
  "verification_failed e =
     ''Pool verification failed: '' @ (case message e of None \<Rightarrow> ''undefined'' | Some m \<Rightarrow> m)"

definition verifyPool :: "stake_ctx \<Rightarrow> pool_env \<Rightarrow> effect list \<times> bool" where
  "verifyPool ctx pe =
     (if \<not> publicClient ctx
      then ([SetPoolError (Some ''Public client not available'')], False)
      else
        (case poolLength_resp pe of
           Inl e \<Rightarrow>
             ([SetPoolError None, ReadContract (chef ctx) ''poolLength'' [],
               SetPoolError (Some (verification_failed e))], False)
         | Inr poolLength \<Rightarrow>
             if poolLength \<le> pid ctx
             then ([SetPoolError None, ReadContract (chef ctx) ''poolLength'' [],
                    SetPoolError (Some (''Pool ID '' @ show_nat (pid ctx) @
                      '' does not exist. MasterChef only has '' @ show_nat poolLength @
                      '' pools.''))], False)
             else
               (case poolInfo_resp pe of
                  Inl e \<Rightarrow>
                    ([SetPoolError None, ReadContract (chef ctx) ''poolLength'' [],
                      ReadContract (chef ctx) ''poolInfo'' [Big (int (pid ctx))],
                      SetPoolError (Some (verification_failed e))], False)
                | Inr (lp, allocPoint) \<Rightarrow>
                    if toLowerCase lp = toLowerCase ZERO_ADDRESS
                    then ([SetPoolError None, ReadContract (chef ctx) ''poolLength'' [],
                           ReadContract (chef ctx) ''poolInfo'' [Big (int (pid ctx))],
                           SetPoolError (Some (''Pool '' @ show_nat (pid ctx) @
                             '' has zero address LP token. Pool not properly configured.''))],
                          False)
                    else ([SetPoolError None, ReadContract (chef ctx) ''poolLength'' [],
                           ReadContract (chef ctx) ''poolInfo'' [Big (int (pid ctx))],
                           SetPoolVerified True], True))))"

subsection \<open>One submission attempt\<close>

text \<open>
  The answers of the node and of the wallet during one attempt. \<open>waitForTx\<close> polls for the
  receipt against the wall clock; it is represented by what it returns (\<open>confirmed\<close>) and
  it never throws.
\<close>

record attempt_env =
  nonce_resp :: "js_error + nat"
  gas_resp :: "js_error + nat"
  gasPrice_resp :: "js_error + nat"
  write_resp :: "js_error + string"
  confirmed :: bool

datatype attempt_result = Confirmed string | NotConfirmed | Threw js_error

definition tx_call :: "stake_ctx \<Rightarrow> string \<Rightarrow> int \<Rightarrow> nat \<Rightarrow> nat \<Rightarrow> nat \<Rightarrow> contract_call" where
  "tx_call ctx fname amountWei g n price =
     \<lparr>target = chef ctx, functionName = fname, args = [Big (int (pid ctx)), Big amountWei],
      callValue = None, gas = Some g, nonce = Some n,
      gasPrice = Some ((price * 130) div 100)\<rparr>"

definition run_attempt ::
  "stake_ctx \<Rightarrow> string \<Rightarrow> int \<Rightarrow> attempt_env \<Rightarrow> effect list \<times> attempt_result" where
  "run_attempt ctx fname amountWei ae =
     (case getFreshNonce ctx (nonce_resp ae) of
        (e1, Inl err) \<Rightarrow> (e1, Threw err)
      | (e1, Inr n) \<Rightarrow>
          (case estimateGasWithBuffer ctx (chef ctx) fname
                  [Big (int (pid ctx)), Big amountWei] (gas_resp ae) of
             (e2, g) \<Rightarrow>
               (case gasPrice_resp ae of
                  Inl err \<Rightarrow> (e1 @ e2 @ [GetGasPrice], Threw err)
                | Inr price \<Rightarrow>
                    (case write_resp ae of
                       Inl err \<Rightarrow>
                         (e1 @ e2 @ [GetGasPrice, WriteContract (tx_call ctx fname amountWei g n price)],
                          Threw err)
                     | Inr h \<Rightarrow>
                         (e1 @ e2 @ [GetGasPrice, WriteContract (tx_call ctx fname amountWei g n price),
                                     SetTxHash h, WaitForTx h 180000],
                          if confirmed ae then Confirmed h else NotConfirmed)))))"

subsection \<open>The retry loop of stake and unstake\<close>

text \<open>
  The two loops of the source are the same text up to the contract function
  (\<open>deposit\<close>, \<open>withdraw\<close>) and the default error message; they are one function with
  these two parameters. \<open>env k\<close> holds the answers during attempt \<open>k\<close>.
\<close>

definition error_text :: "js_error \<Rightarrow> string \<Rightarrow> string" where
  "error_text e dflt = str_or (shortMessage e) (str_or (message e) dflt)"

definition retryable :: "string \<Rightarrow> bool" where
  "retryable lastError =
     (str_includes lastError ''dropped'' \<or> str_includes lastError ''replaced''
      \<or> str_includes lastError ''nonce'')"

definition give_up :: "string \<Rightarrow> effect list \<times> tx_result" where
  "give_up lastError = ([SetTxError (Some lastError), SetIsProcessing False], failure lastError)"

function submit_loop ::
  "stake_ctx \<Rightarrow> string \<Rightarrow> string \<Rightarrow> int \<Rightarrow> (nat \<Rightarrow> attempt_env) \<Rightarrow> nat \<Rightarrow>
   nat \<Rightarrow> string \<Rightarrow> nat \<Rightarrow> effect list \<times> tx_result" where
  "submit_loop ctx fname dflt amountWei env retries attempt lastError backoffMs =
     (if attempt \<le> retries then
        (case run_attempt ctx fname amountWei (env attempt) of
           (evs, Confirmed h) \<Rightarrow>
             (evs @ [SetIsSuccess True, SetIsProcessing False],
              \<lparr>success = True, hash = Some h, error = None\<rparr>)
         | (evs, NotConfirmed) \<Rightarrow>
             (case submit_loop ctx fname dflt amountWei env retries (attempt + 1)
                     ''Transaction not confirmed in time'' backoffMs of
                (rest, res) \<Rightarrow> (evs @ rest, res))
         | (evs, Threw e) \<Rightarrow>
             if retryable (error_text e dflt)
             then
               (case submit_loop ctx fname dflt amountWei env retries (attempt + 1)
                       (error_text e dflt) (backoffMs * 2) of
                  (rest, res) \<Rightarrow> (evs @ Sleep backoffMs # rest, res))
             else
               (case give_up (error_text e dflt) of (rest, res) \<Rightarrow> (evs @ rest, res)))
      else give_up lastError)"
  by pat_completeness auto
termination
  by (relation "measure (\<lambda>(ctx, fname, dflt, amountWei, env, retries, attempt, lastError, backoffMs).
        retries + 1 - attempt)") auto

subsection \<open>stake, unstake, needsApproval\<close>

text \<open>\<open>retries = 3\<close>: the parameter may be left out, and is 3 then.\<close>

definition retries_or_default :: "nat option \<Rightarrow> nat" where
  "retries_or_default r = (case r of None \<Rightarrow> 3 | Some n \<Rightarrow> n)"

text \<open>The guards of the two functions, in the order of the source.\<close>

definition wallet_missing :: "stake_ctx \<Rightarrow> bool" where
  "wallet_missing ctx = (\<not> walletClient ctx \<or> falsy_str (account ctx) \<or> \<not> publicClient ctx)"

definition invalid_amount :: "js_lib \<Rightarrow> string \<Rightarrow> bool" where
  "invalid_amount lib amount = (amount = [] \<or> js_le (parseFloat lib amount) (Fin 0))"

definition pool_check :: "stake_ctx \<Rightarrow> pool_env \<Rightarrow> effect list \<times> bool" where
  "pool_check ctx pe = (if \<not> poolVerified ctx then verifyPool ctx pe else ([], True))"

definition over_balance :: "stake_ctx \<Rightarrow> int \<Rightarrow> bool" where
  "over_balance ctx amountWei =
     (\<not> falsy_big (lpBalance ctx) \<and> int (big_or_zero (lpBalance ctx)) < amountWei)"

definition under_allowance :: "stake_ctx \<Rightarrow> int \<Rightarrow> bool" where
  "under_allowance ctx amountWei =
     (falsy_big (allowance ctx) \<or> int (big_or_zero (allowance ctx)) < amountWei)"

definition processing :: "effect list" where
  "processing = [SetIsProcessing True, SetTxError None, SetIsSuccess False]"

definition stake ::
  "js_lib \<Rightarrow> stake_ctx \<Rightarrow> pool_env \<Rightarrow> (nat \<Rightarrow> attempt_env) \<Rightarrow> string \<Rightarrow> nat option \<Rightarrow>
   effect list \<times> (js_exn + tx_result)" where
  "stake lib ctx pe env amount retries =
     (if wallet_missing ctx then ([], Inr (failure ''Wallet not connected''))
      else if invalid_amount lib amount then ([], Inr (failure ''Invalid amount''))
      else
        (case pool_check ctx pe of
           (e0, isValid) \<Rightarrow>
             if \<not> isValid
             then (e0, Inr (failure (str_or (poolError ctx) ''Pool verification failed'')))
             else
               (case parseUnits lib amount 18 of
                  None \<Rightarrow> (e0 @ processing, Inl (InvalidDecimalNumberError amount))
                | Some amountWei \<Rightarrow>
                    if over_balance ctx amountWei
                    then (e0 @ processing @ [SetIsProcessing False],
                          Inr (failure ''Insufficient LP balance''))
                    else if under_allowance ctx amountWei
                    then (e0 @ processing @ [SetIsProcessing False],
                          Inr (failure ''Please approve LP tokens first''))
                    else
                      (case submit_loop ctx ''deposit'' ''Stake failed'' amountWei env
                              (retries_or_default retries) 1 [] 3000 of
                         (evs, res) \<Rightarrow> (e0 @ processing @ evs, Inr res)))))"

definition unstake ::
  "js_lib \<Rightarrow> stake_ctx \<Rightarrow> (nat \<Rightarrow> attempt_env) \<Rightarrow> string \<Rightarrow> nat option \<Rightarrow>
   effect list \<times> (js_exn + tx_result)" where
  "unstake lib ctx env amount retries =
     (if wallet_missing ctx then ([], Inr (failure ''Wallet not connected''))
      else if invalid_amount lib amount then ([], Inr (failure ''Invalid amount''))
      else
        (case parseUnits lib amount 18 of
           None \<Rightarrow> (processing, Inl (InvalidDecimalNumberError amount))
         | Some amountWei \<Rightarrow>
             (case submit_loop ctx ''withdraw'' ''Unstake failed'' amountWei env
                     (retries_or_default retries) 1 [] 3000 of
                (evs, res) \<Rightarrow> (processing @ evs, Inr res))))"

definition needsApproval :: "js_lib \<Rightarrow> stake_ctx \<Rightarrow> string \<Rightarrow> bool" where
  "needsApproval lib ctx amount =
     (if amount = [] \<or> falsy_big (allowance ctx) then True
      else (case parseUnits lib amount 18 of
              Some amountWei \<Rightarrow> int (big_or_zero (allowance ctx)) < amountWei
            | None \<Rightarrow> True))"

subsection \<open>Reading a trace\<close>

text \<open>
  The waits of a trace in order, its requests for the account's transaction count (one
  opens each attempt of a connected hook), and the calls it submitted to the wallet.
\<close>

fun waits :: "effect list \<Rightarrow> nat list" where
  "waits [] = []"
| "waits (Sleep ms # es) = ms # waits es"
| "waits (_ # es) = waits es"

fun nonce_requests :: "effect list \<Rightarrow> nat" where
  "nonce_requests [] = 0"
| "nonce_requests (GetTransactionCount _ _ # es) = Suc (nonce_requests es)"
| "nonce_requests (_ # es) = nonce_requests es"

fun writes :: "effect list \<Rightarrow> contract_call list" where
  "writes [] = []"
| "writes (WriteContract c # es) = c # writes es"
| "writes (_ # es) = writes es"

fun nonce_tags :: "effect list \<Rightarrow> block_tag list" where
  "nonce_tags [] = []"
| "nonce_tags (GetTransactionCount _ t # es) = t # nonce_tags es"
| "nonce_tags (_ # es) = nonce_tags es"

fun hashes :: "effect list \<Rightarrow> string list" where
  "hashes [] = []"
| "hashes (SetTxHash h # es) = h # hashes es"
| "hashes (_ # es) = hashes es"

text \<open>
  The effects of the \<open>k\<close>-th attempt of a trace: from the \<open>k\<close>-th request for the
  transaction count, which opens the attempt, up to the next such request. And the calls
  whose gas a trace asked the node to estimate.
\<close>

fun until_nonce_request :: "effect list \<Rightarrow> effect list" where
  "until_nonce_request [] = []"
| "until_nonce_request (GetTransactionCount a t # es) = []"
| "until_nonce_request (e # es) = e # until_nonce_request es"

fun attempt_effects :: "nat \<Rightarrow> effect list \<Rightarrow> effect list" where
  "attempt_effects k [] = []"
| "attempt_effects k (GetTransactionCount a t # es) =
     (if k = 1 then GetTransactionCount a t # until_nonce_request es
      else attempt_effects (k - 1) es)"
| "attempt_effects k (e # es) = attempt_effects k es"

fun estimates :: "effect list \<Rightarrow> contract_call list" where
  "estimates [] = []"
| "estimates (EstimateContractGas c # es) = c # estimates es"
| "estimates (_ # es) = estimates es"

text \<open>
  How an attempt ends does not depend on the amount or on the contract function. An
  attempt is retried after a wait when it threw an error whose text holds one of the three
  words, and ends the loop when it threw any other error.
\<close>

definition attempt_outcome :: "stake_ctx \<Rightarrow> attempt_env \<Rightarrow> attempt_result" where
  "attempt_outcome ctx ae = snd (run_attempt ctx [] 0 ae)"

definition retried_after_wait :: "stake_ctx \<Rightarrow> string \<Rightarrow> attempt_env \<Rightarrow> bool" where
  "retried_after_wait ctx dflt ae =
     (case attempt_outcome ctx ae of
        Threw e \<Rightarrow> retryable (error_text e dflt)
      | _ \<Rightarrow> False)"

definition fatal_text :: "stake_ctx \<Rightarrow> string \<Rightarrow> attempt_env \<Rightarrow> string option" where
  "fatal_text ctx dflt ae =
     (case attempt_outcome ctx ae of
        Threw e \<Rightarrow> if retryable (error_text e dflt) then None else Some (error_text e dflt)
      | _ \<Rightarrow> None)"

text \<open>
  The message a failed attempt leaves in \<open>lastError\<close>: the text of the error it threw,
  or the fixed text of a transaction that was sent and not confirmed in time.
\<close>

definition failure_text :: "stake_ctx \<Rightarrow> string \<Rightarrow> attempt_env \<Rightarrow> string option" where
  "failure_text ctx dflt ae =
     (case attempt_outcome ctx ae of
        Confirmed _ \<Rightarrow> None
      | NotConfirmed \<Rightarrow> Some ''Transaction not confirmed in time''
      | Threw e \<Rightarrow> Some (error_text e dflt))"

section \<open>useApproval\<close>

definition NATIVE_ADDRESS :: string where
  "NATIVE_ADDRESS = ''0x0000000000000000000000000000000000000000''"

definition ROUTER :: string where
  "ROUTER = ''0xa45cc7A52C5179BD24076994Ef253Eb1FB1A9929''"

definition WMON :: string where
  "WMON = ''0x3bd359C1119dA7Da1D913D1C4D2B7c461115433A''"

text \<open>
  The hook's result, as far as it is computed in the render: \<open>currentAllowance\<close> and
  \<open>needsApproval\<close>. \<open>allowanceData\<close> is what \<open>useReadContract\<close> holds for the allowance;
  \<open>decimals = 18\<close> when the parameter is left out.
  The render throws where \<open>parseUnits\<close> does.
\<close>

definition isNativeAddress :: "string option \<Rightarrow> bool" where
  "isNativeAddress tokenAddress = (tokenAddress = Some NATIVE_ADDRESS \<or> falsy_str tokenAddress)"

definition decimals_or_default :: "nat option \<Rightarrow> nat" where
  "decimals_or_default d = (case d of None \<Rightarrow> 18 | Some n \<Rightarrow> n)"

definition useApproval ::
  "js_lib \<Rightarrow> string option \<Rightarrow> string \<Rightarrow> nat option \<Rightarrow> nat option \<Rightarrow> js_exn + nat \<times> bool" where
  "useApproval lib tokenAddress amount decs allowanceData =
     (case (if amount \<noteq> [] \<and> js_gt (parseFloat lib amount) (Fin 0)
            then parseUnits lib amount (decimals_or_default decs) else Some 0) of
        None \<Rightarrow> Inl (InvalidDecimalNumberError amount)
      | Some amountBigInt \<Rightarrow>
          Inr (big_or_zero allowanceData,
               \<not> isNativeAddress tokenAddress \<and> 0 < amountBigInt
               \<and> int (big_or_zero allowanceData) < amountBigInt))"

section \<open>usePoolRatio\<close>

record token =
  address :: string
  symbol :: string
  name :: string
  decimals :: nat
  isNative :: "bool option"

record pool_reserves =
  reserve0 :: string
  reserve1 :: string
  totalSupply :: string
  token0 :: "string \<times> string"
  token1 :: "string \<times> string"

record ratio_state =
  reserves :: "pool_reserves option"
  loading :: bool
  fetchError :: "string option"
  isTokenAFirst :: bool

definition is_native :: "token \<Rightarrow> bool" where
  "is_native t = (address t = NATIVE_ADDRESS \<or> isNative t = Some True)"

definition getActualAddress :: "token \<Rightarrow> string" where
  "getActualAddress t = (if is_native t then toLowerCase WMON else toLowerCase (address t))"

text \<open>
  What the indexer answers: the request fails (\<open>fetch\<close> or \<open>json\<close> throws; the message is
  there when the thrown value is an \<open>Error\<close>), the answer carries \<open>errors\<close>, or it carries
  the first pair of the list, if there is one.
\<close>

datatype fetch_resp =
    FetchThrows "string option"
  | GraphErrors string
  | Pairs "pool_reserves option"

text \<open>
  \<open>fetchReserves\<close> runs in two parts, around the \<open>await\<close> of the indexer's answer:
  \<open>fetch_begin\<close> is the state the hook renders while the request is out, \<open>fetch_end\<close>
  the state once the answer (\<open>try\<close>, \<open>catch\<close>, \<open>finally\<close>) is in. \<open>fetchReserves\<close> also
  returns the two addresses it asked for (\<open>token0_\<close> and \<open>token1_\<close> of the query), when
  it asked.
\<close>

definition fetch_begin :: "ratio_state \<Rightarrow> string \<Rightarrow> string \<Rightarrow> ratio_state" where
  "fetch_begin st addressA addressB =
     (case sort2 addressA addressB of
        (token0Addr, token1Addr) \<Rightarrow>
          st\<lparr>loading := True, fetchError := None, isTokenAFirst := (addressA = token0Addr)\<rparr>)"

definition fetch_end :: "ratio_state \<Rightarrow> fetch_resp \<Rightarrow> ratio_state" where
  "fetch_end st resp =
     (case resp of
        FetchThrows m \<Rightarrow>
          st\<lparr>fetchError := Some (case m of Some t \<Rightarrow> t | None \<Rightarrow> ''Failed to fetch reserves''),
             loading := False\<rparr>
      | GraphErrors m \<Rightarrow> st\<lparr>fetchError := Some m, loading := False\<rparr>
      | Pairs (Some p) \<Rightarrow> st\<lparr>reserves := Some p, loading := False\<rparr>
      | Pairs None \<Rightarrow>
          st\<lparr>reserves := None,
             fetchError := Some ''Pool not found - this will create a new pool'',
             loading := False\<rparr>)"

definition fetchReserves ::
  "ratio_state \<Rightarrow> token option \<Rightarrow> token option \<Rightarrow> fetch_resp \<Rightarrow>
   (string \<times> string) option \<times> ratio_state" where
  "fetchReserves st tokenA tokenB resp =
     (case (tokenA, tokenB) of
        (Some a, Some b) \<Rightarrow>
          if getActualAddress a = getActualAddress b
          then (None, st\<lparr>fetchError := Some ''Same token selected''\<rparr>)
          else (Some (sort2 (getActualAddress a) (getActualAddress b)),
                fetch_end (fetch_begin st (getActualAddress a) (getActualAddress b)) resp)
      | _ \<Rightarrow> (None, st\<lparr>reserves := None\<rparr>))"

definition reserveA :: "ratio_state \<Rightarrow> string" where
  "reserveA st =
     (case reserves st of
        Some r \<Rightarrow> if isTokenAFirst st then reserve0 r else reserve1 r
      | None \<Rightarrow> ''0'')"

definition reserveB :: "ratio_state \<Rightarrow> string" where
  "reserveB st =
     (case reserves st of
        Some r \<Rightarrow> if isTokenAFirst st then reserve1 r else reserve0 r
      | None \<Rightarrow> ''0'')"

definition reserveANum :: "js_lib \<Rightarrow> ratio_state \<Rightarrow> jsnum" where
  "reserveANum lib st = num_or_zero (parseFloat lib (reserveA st))"

definition reserveBNum :: "js_lib \<Rightarrow> ratio_state \<Rightarrow> jsnum" where
  "reserveBNum lib st = num_or_zero (parseFloat lib (reserveB st))"

definition ratio :: "js_lib \<Rightarrow> ratio_state \<Rightarrow> jsnum" where
  "ratio lib st =
     (if js_gt (reserveANum lib st) (Fin 0)
      then fdiv lib (reserveBNum lib st) (reserveANum lib st) else Fin 1)"

definition reverseRatio :: "js_lib \<Rightarrow> ratio_state \<Rightarrow> jsnum" where
  "reverseRatio lib st =
     (if js_gt (reserveBNum lib st) (Fin 0)
      then fdiv lib (reserveANum lib st) (reserveBNum lib st) else Fin 1)"

definition poolExists :: "ratio_state \<Rightarrow> bool" where
  "poolExists st = (reserves st \<noteq> None)"

text \<open>
  The literal \<open>0.000001\<close> is the double nearest to it, \<open>4722366482869645 / 2^72\<close>;
  \<open>1\<close> and \<open>1000\<close> are doubles.
\<close>

definition lit_0_000001 :: jsnum where
  "lit_0_000001 = Fin (4722366482869645 / 4722366482869645213696)"

definition calculateAmountB :: "js_lib \<Rightarrow> ratio_state \<Rightarrow> string \<Rightarrow> string" where
  "calculateAmountB lib st amountA =
     (if amountA = [] \<or> js_le (parseFloat lib amountA) (Fin 0) then []
      else if reserves st = None \<or> js_eq (reserveANum lib st) (Fin 0) then amountA
      else
        (let numA = parseFloat lib amountA;
             calculatedB = fmul lib numA (ratio lib st)
         in if js_lt calculatedB lit_0_000001 then toExponential lib calculatedB 4
            else if js_lt calculatedB (Fin 1) then toFixed lib calculatedB 8
            else if js_lt calculatedB (Fin 1000) then toFixed lib calculatedB 6
            else toFixed lib calculatedB 4))"

definition calculateAmountA :: "js_lib \<Rightarrow> ratio_state \<Rightarrow> string \<Rightarrow> string" where
  "calculateAmountA lib st amountB =
     (if amountB = [] \<or> js_le (parseFloat lib amountB) (Fin 0) then []
      else if reserves st = None \<or> js_eq (reserveBNum lib st) (Fin 0) then amountB
      else
        (let numB = parseFloat lib amountB;
             calculatedA = fmul lib numB (reverseRatio lib st)
         in if js_lt calculatedA lit_0_000001 then toExponential lib calculatedA 4
            else if js_lt calculatedA (Fin 1) then toFixed lib calculatedA 8
            else if js_lt calculatedA (Fin 1000) then toFixed lib calculatedA 6
            else toFixed lib calculatedA 4))"


section \<open>useAddLiquidity, useRemoveLiquidity\<close>

text \<open>
  \<open>now\<close> is what \<open>Date.now()\<close> returns, in milliseconds. It is a whole number below
  \<open>2^53\<close>, for which \<open>Math.floor(now / 1000)\<close> is the integer quotient.
\<close>

text \<open>\<open>slippage = 10\<close>: the hooks' parameter may be left out, and is 10 then.\<close>

definition slippage_or_default :: "jsnum option \<Rightarrow> jsnum" where
  "slippage_or_default s = (case s of None \<Rightarrow> Fin 10 | Some x \<Rightarrow> x)"

definition deadline_of :: "nat \<Rightarrow> int" where
  "deadline_of now = int (now div 1000 + 1200)"

definition router_call :: "string \<Rightarrow> arg list \<Rightarrow> int option \<Rightarrow> contract_call" where
  "router_call fname as v =
     \<lparr>target = ROUTER, functionName = fname, args = as, callValue = v,
      gas = None, nonce = None, gasPrice = None\<rparr>"

text \<open>
  Estimate the gas of the call, then submit it with a fifth more; when the estimate
  throws, submit it with no gas limit.
\<close>

definition estimate_and_write :: "contract_call \<Rightarrow> js_error + nat \<Rightarrow> effect list" where
  "estimate_and_write c resp =
     [EstimateContractGas c,
      WriteContract
        (case resp of
           Inr gasEstimate \<Rightarrow> c\<lparr>gas := Some ((gasEstimate * 120) div 100)\<rparr>
         | Inl _ \<Rightarrow> c)]"

definition addLiquidity ::
  "js_lib \<Rightarrow> string option \<Rightarrow> bool \<Rightarrow> token \<Rightarrow> token \<Rightarrow> jsnum option \<Rightarrow> nat \<Rightarrow> js_error + nat \<Rightarrow>
   string \<Rightarrow> string \<Rightarrow> js_exn + effect list" where
  "addLiquidity lib acct client tokenA tokenB slippage now resp amountA amountB =
     (if falsy_str acct \<or> \<not> client then Inl (Error ''Wallet not connected'')
      else if amountA = [] \<or> amountB = [] \<or> js_le (parseFloat lib amountA) (Fin 0)
              \<or> js_le (parseFloat lib amountB) (Fin 0)
      then Inl (Error ''Invalid amounts'')
      else
        (case parseUnits lib amountA (decimals tokenA) of
           None \<Rightarrow> Inl (InvalidDecimalNumberError amountA)
         | Some amountAWei \<Rightarrow>
        (case parseUnits lib amountB (decimals tokenB) of
           None \<Rightarrow> Inl (InvalidDecimalNumberError amountB)
         | Some amountBWei \<Rightarrow>
        (case to_bigint (fsub lib (Fin 100) (slippage_or_default slippage)) of
           None \<Rightarrow> Inl RangeError
         | Some slippageMultiplier \<Rightarrow>
             if is_native tokenA \<or> is_native tokenB
             then
               (let nativeAmount = (if is_native tokenA then amountAWei else amountBWei);
                    tokenAmount = (if is_native tokenA then amountBWei else amountAWei);
                    tokenAddress = (if is_native tokenA then address tokenB else address tokenA);
                    minToken = big_div (tokenAmount * slippageMultiplier) 100;
                    minETH = big_div (nativeAmount * slippageMultiplier) 100
                in Inr (estimate_and_write
                     (router_call ''addLiquidityETH''
                        [Addr tokenAddress, Big tokenAmount, Big minToken, Big minETH,
                         Addr (str_or acct []), Big (deadline_of now)]
                        (Some nativeAmount)) resp))
             else
               (let minAmountA = big_div (amountAWei * slippageMultiplier) 100;
                    minAmountB = big_div (amountBWei * slippageMultiplier) 100
                in Inr (estimate_and_write
                     (router_call ''addLiquidity''
                        [Addr (address tokenA), Addr (address tokenB), Big amountAWei,
                         Big amountBWei, Big minAmountA, Big minAmountB,
                         Addr (str_or acct []), Big (deadline_of now)]
                        None) resp))))))"

definition removeLiquidity ::
  "js_lib \<Rightarrow> string option \<Rightarrow> bool \<Rightarrow> jsnum option \<Rightarrow> nat \<Rightarrow> js_error + nat \<Rightarrow>
   int \<Rightarrow> string \<Rightarrow> string \<Rightarrow> int \<Rightarrow> int \<Rightarrow> bool \<Rightarrow> js_exn + effect list" where
  "removeLiquidity lib acct client slippage now resp
       lpAmount token0Address token1Address minAmount0 minAmount1 hasWMON =
     (if falsy_str acct \<or> \<not> client then Inl (Error ''Wallet not connected'')
      else if lpAmount \<le> 0 then Inl (Error ''Invalid LP amount'')
      else
        (case to_bigint (fsub lib (Fin 100) (slippage_or_default slippage)) of
           None \<Rightarrow> Inl RangeError
         | Some slippageMultiplier \<Rightarrow>
             (let minOut0 = big_div (minAmount0 * slippageMultiplier) 100;
                  minOut1 = big_div (minAmount1 * slippageMultiplier) 100
              in if hasWMON
                 then
                   (let isToken0WMON = (toLowerCase token0Address = toLowerCase WMON);
                        tokenAddress = (if isToken0WMON then token1Address else token0Address);
                        minTokenAmount = (if isToken0WMON then minOut1 else minOut0);
                        minETHAmount = (if isToken0WMON then minOut0 else minOut1)
                    in Inr (estimate_and_write
                         (router_call ''removeLiquidityETH''
                            [Addr tokenAddress, Big lpAmount, Big minTokenAmount, Big minETHAmount,
                             Addr (str_or acct []), Big (deadline_of now)]
                            None) resp))
                 else
                   Inr (estimate_and_write
                         (router_call ''removeLiquidity''
                            [Addr token0Address, Addr token1Address, Big lpAmount, Big minOut0,
                             Big minOut1, Addr (str_or acct []), Big (deadline_of now)]
                            None) resp))))"


section \<open>An interpretation of the runtime for the examples\<close>

text \<open>
  The theorems below hold for every \<open>js_lib\<close>. The examples run the hooks with this one:
  it reads whole-number literals (and nothing else), computes exactly on finite numbers,
  and prints as \<open>Number.prototype.toFixed\<close> and \<open>toExponential\<close> do for a finite number
  that is not negative (the nearest decimal, the larger one at a tie).
\<close>

definition digit_of :: "char \<Rightarrow> nat option" where
  "digit_of c =
     (let n = (of_char c :: nat) in if 48 \<le> n \<and> n \<le> 57 then Some (n - 48) else None)"

fun digits_val :: "nat \<Rightarrow> string \<Rightarrow> nat option" where
  "digits_val acc [] = Some acc"
| "digits_val acc (c # cs) =
     (case digit_of c of None \<Rightarrow> None | Some d \<Rightarrow> digits_val (acc * 10 + d) cs)"

definition whole_literal :: "string \<Rightarrow> nat option" where
  "whole_literal s = (if s = [] then None else digits_val 0 s)"

fun exact2 :: "(rat \<Rightarrow> rat \<Rightarrow> rat) \<Rightarrow> jsnum \<Rightarrow> jsnum \<Rightarrow> jsnum" where
  "exact2 f (Fin a) (Fin b) = Fin (f a b)"
| "exact2 f _ _ = NaN"

fun exact_div :: "jsnum \<Rightarrow> jsnum \<Rightarrow> jsnum" where
  "exact_div (Fin a) (Fin b) = (if b = 0 then NaN else Fin (a / b))"
| "exact_div _ _ = NaN"

definition pad_left :: "nat \<Rightarrow> string \<Rightarrow> string" where
  "pad_left n s = replicate (n - length s) CHR ''0'' @ s"

definition fixed_digits :: "rat \<Rightarrow> nat \<Rightarrow> string" where
  "fixed_digits q f =
     (let ds = pad_left (f + 1) (show_nat (nat \<lfloor>q * 10 ^ f + 1 / 2\<rfloor>))
      in if f = 0 then ds
         else take (length ds - f) ds @ ''.'' @ drop (length ds - f) ds)"

fun decimal_toFixed :: "jsnum \<Rightarrow> nat \<Rightarrow> string" where
  "decimal_toFixed (Fin q) f = (if 0 \<le> q then fixed_digits q f else ''NaN'')"
| "decimal_toFixed _ f = ''NaN''"

fun norm10 :: "nat \<Rightarrow> rat \<Rightarrow> int \<Rightarrow> rat \<times> int" where
  "norm10 0 q e = (q, e)"
| "norm10 (Suc k) q e =
     (if 10 \<le> q then norm10 k (q / 10) (e + 1)
      else if q < 1 then norm10 k (q * 10) (e - 1)
      else (q, e))"

definition exp_digits :: "rat \<Rightarrow> nat \<Rightarrow> string" where
  "exp_digits q f =
     (case norm10 400 q 0 of
        (m, e) \<Rightarrow>
          (let n = nat \<lfloor>m * 10 ^ f + 1 / 2\<rfloor>;
               n' = (if 10 ^ (f + 1) \<le> n then n div 10 else n);
               e' = (if 10 ^ (f + 1) \<le> n then e + 1 else e);
               ds = show_nat n'
           in take 1 ds @ (if f = 0 then [] else ''.'' @ drop 1 ds) @ ''e''
              @ (if e' < 0 then ''-'' else ''+'') @ show_nat (nat \<bar>e'\<bar>)))"

fun decimal_toExponential :: "jsnum \<Rightarrow> nat \<Rightarrow> string" where
  "decimal_toExponential (Fin q) f =
     (if q = 0 then ''0'' @ (if f = 0 then [] else ''.'' @ replicate f CHR ''0'') @ ''e+0''
      else if 0 < q then exp_digits q f else ''NaN'')"
| "decimal_toExponential _ f = ''NaN''"

definition decimal_lib :: js_lib where
  "decimal_lib =
     \<lparr>parseFloat = (\<lambda>s. case whole_literal s of Some n \<Rightarrow> Fin (of_nat n) | None \<Rightarrow> NaN),
      parseUnits = (\<lambda>s d. case whole_literal s of Some n \<Rightarrow> Some (int n * 10 ^ d) | None \<Rightarrow> None),
      fmul = exact2 (*),
      fdiv = exact_div,
      fsub = exact2 (-),
      toFixed = decimal_toFixed,
      toExponential = decimal_toExponential\<rparr>"

text \<open>A pool of 100 units of the first token and 300 of the second, for the examples.\<close>

definition demo_reserves :: pool_reserves where
  "demo_reserves =
     \<lparr>reserve0 = ''100'', reserve1 = ''300'', totalSupply = ''173'',
      token0 = (''0x3bd359c1119da7da1d913d1c4d2b7c461115433a'', ''WMON''),
      token1 = (''0x6d42efc8b2ec16cc61b47bfc2abb38d570faabb5'', ''QUICK'')\<rparr>"

definition demo_ratio_state :: ratio_state where
  "demo_ratio_state =
     \<lparr>reserves = Some demo_reserves, loading = False, fetchError = None, isTokenAFirst = True\<rparr>"

definition MON_TOKEN :: token where
  "MON_TOKEN = \<lparr>address = NATIVE_ADDRESS, symbol = ''MON'', name = ''Monad'', decimals = 18,
     isNative = Some True\<rparr>"

definition QUICK_TOKEN :: token where
  "QUICK_TOKEN = \<lparr>address = ''0x6d42eFC8B2EC16cC61B47BfC2ABb38D570Faabb5'', symbol = ''QUICK'',
     name = ''QuickSwap Token'', decimals = 18, isNative = Some False\<rparr>"

definition MMF_TOKEN :: token where
  "MMF_TOKEN = \<lparr>address = ''0x775B6D1d23463AC5Cc7684139a8A7642970e3Cda'', symbol = ''MMF'',
     name = ''MMFinance'', decimals = 18, isNative = Some False\<rparr>"

text \<open>The placeholder of the token list for USDC, a token of six decimals.\<close>

definition USDC_TOKEN :: token where
  "USDC_TOKEN = \<lparr>address = ''0x0000000000000000000000000000000000000001'', symbol = ''USDC'',
     name = ''USD Coin'', decimals = 6, isNative = Some False\<rparr>"

text \<open>A connected wallet with a verified pool, for the examples.\<close>

definition demo_ctx :: stake_ctx where
  "demo_ctx =
     \<lparr>walletClient = True, publicClient = True,
      account = Some ''0x00000000000000000000000000000000000000aa'',
      chef = ''0x1CF67a6Ac3E049E78E6BC22642126C6AB8511d03'', pid = 0,
      lpToken = ''0xcf4dc3db3223ee91ff52da4e110ba8abfb943843'',
      poolVerified = True, poolError = None,
      allowance = Some (10 ^ 30), lpBalance = Some (10 ^ 20)\<rparr>"

text \<open>
  The answers of a node and a wallet for the examples: every request answered and the
  transaction confirmed (\<open>quiet_attempt\<close>), and a run whose first two submissions are
  thrown back as a nonce clash and a replacement and whose third the user rejects.
\<close>

definition thrown :: "string \<Rightarrow> js_error" where
  "thrown m = \<lparr>shortMessage = None, message = Some m\<rparr>"

definition quiet_attempt :: attempt_env where
  "quiet_attempt = \<lparr>nonce_resp = Inr 7, gas_resp = Inr 100000, gasPrice_resp = Inr 50,
     write_resp = Inr ''0xfeed'', confirmed = True\<rparr>"

definition flaky_env :: "nat \<Rightarrow> attempt_env" where
  "flaky_env k =
     (if k = 1 then quiet_attempt\<lparr>write_resp := Inl (thrown ''nonce too low'')\<rparr>
      else if k = 2
      then quiet_attempt\<lparr>nonce_resp := Inr 8, gas_resp := Inl (thrown ''execution reverted''),
             write_resp := Inl (thrown ''transaction was replaced'')\<rparr>
      else quiet_attempt\<lparr>nonce_resp := Inr 9,
             write_resp := Inl (thrown ''User rejected the request.'')\<rparr>)"

text \<open>
  A run whose three submissions are thrown back, each with one of the three words: a nonce
  clash, a replacement, a drop.
\<close>

definition congested_env :: "nat \<Rightarrow> attempt_env" where
  "congested_env k =
     (if k = 1 then quiet_attempt\<lparr>write_resp := Inl (thrown ''nonce too low'')\<rparr>
      else if k = 2
      then quiet_attempt\<lparr>nonce_resp := Inr 8,
             write_resp := Inl (thrown ''transaction was replaced'')\<rparr>
      else quiet_attempt\<lparr>nonce_resp := Inr 9,
             write_resp := Inl (thrown ''transaction dropped'')\<rparr>)"

text \<open>A run in which every transaction is sent and none is confirmed in time.\<close>

definition slow_env :: "nat \<Rightarrow> attempt_env" where
  "slow_env k = quiet_attempt\<lparr>nonce_resp := Inr (6 + k), confirmed := False\<rparr>"

definition demo_pool :: pool_env where
  "demo_pool =
     \<lparr>poolLength_resp = Inr 1,
      poolInfo_resp = Inr (''0xcf4dc3db3223ee91ff52da4e110ba8abfb943843'', 100)\<rparr>"

section \<open>Properties of the retry loop\<close>

lemma waits_append: "waits (xs @ ys) = waits xs @ waits ys"
  by (induction xs rule: waits.induct) simp_all

lemma nonce_requests_append: "nonce_requests (xs @ ys) = nonce_requests xs + nonce_requests ys"
  by (induction xs rule: nonce_requests.induct) simp_all

lemma writes_append: "writes (xs @ ys) = writes xs @ writes ys"
  by (induction xs rule: writes.induct) simp_all

lemma hashes_append: "hashes (xs @ ys) = hashes xs @ hashes ys"
  by (induction xs rule: hashes.induct) simp_all

lemma run_attempt_waits: "waits (fst (run_attempt ctx f w ae)) = []"
  by (simp add: run_attempt_def getFreshNonce_def estimateGasWithBuffer_def waits_append
      split: sum.splits prod.splits)

lemma run_attempt_nonce_requests:
  "connected ctx \<Longrightarrow> nonce_requests (fst (run_attempt ctx f w ae)) = 1"
  by (simp add: run_attempt_def getFreshNonce_def estimateGasWithBuffer_def nonce_requests_append
      split: sum.splits prod.splits)

lemma run_attempt_outcome: "snd (run_attempt ctx f w ae) = attempt_outcome ctx ae"
  by (simp add: attempt_outcome_def run_attempt_def getFreshNonce_def estimateGasWithBuffer_def
      split: sum.splits prod.splits)

lemma give_up_quiet:
  "waits (fst (give_up m)) = []" "nonce_requests (fst (give_up m)) = 0"
  "writes (fst (give_up m)) = []" "snd (give_up m) = failure m"
  by (simp_all add: give_up_def)

declare submit_loop.simps [simp del]

lemma loop_step:
  "submit_loop ctx f d w env r a le b =
     (if a \<le> r then
        (case attempt_outcome ctx (env a) of
           Confirmed h \<Rightarrow>
             (fst (run_attempt ctx f w (env a)) @ [SetIsSuccess True, SetIsProcessing False],
              \<lparr>success = True, hash = Some h, error = None\<rparr>)
         | NotConfirmed \<Rightarrow>
             (fst (run_attempt ctx f w (env a))
                @ fst (submit_loop ctx f d w env r (a + 1) ''Transaction not confirmed in time'' b),
              snd (submit_loop ctx f d w env r (a + 1) ''Transaction not confirmed in time'' b))
         | Threw e \<Rightarrow>
             if retryable (error_text e d)
             then (fst (run_attempt ctx f w (env a)) @ Sleep b
                     # fst (submit_loop ctx f d w env r (a + 1) (error_text e d) (b * 2)),
                   snd (submit_loop ctx f d w env r (a + 1) (error_text e d) (b * 2)))
             else (fst (run_attempt ctx f w (env a)) @ fst (give_up (error_text e d)),
                   failure (error_text e d)))
      else give_up le)"
proof -
  obtain evs res where ra: "run_attempt ctx f w (env a) = (evs, res)"
    by (cases "run_attempt ctx f w (env a)") simp
  then have ao: "attempt_outcome ctx (env a) = res"
    using run_attempt_outcome [of ctx f w "env a"] by simp
  show ?thesis
    by (subst submit_loop.simps)
       (simp add: ra ao give_up_def split: prod.splits attempt_result.splits)
qed

lemma loop_done:
  "\<not> a \<le> r \<Longrightarrow> submit_loop ctx f d w env r a le b = give_up le"
  by (subst loop_step) simp

lemma loop_confirmed:
  "a \<le> r \<Longrightarrow> attempt_outcome ctx (env a) = Confirmed h \<Longrightarrow>
   submit_loop ctx f d w env r a le b =
     (fst (run_attempt ctx f w (env a)) @ [SetIsSuccess True, SetIsProcessing False],
      \<lparr>success = True, hash = Some h, error = None\<rparr>)"
  by (subst loop_step) simp

lemma loop_not_confirmed:
  "a \<le> r \<Longrightarrow> attempt_outcome ctx (env a) = NotConfirmed \<Longrightarrow>
   submit_loop ctx f d w env r a le b =
     (fst (run_attempt ctx f w (env a))
        @ fst (submit_loop ctx f d w env r (a + 1) ''Transaction not confirmed in time'' b),
      snd (submit_loop ctx f d w env r (a + 1) ''Transaction not confirmed in time'' b))"
  by (subst loop_step) simp

lemma loop_retry:
  "a \<le> r \<Longrightarrow> attempt_outcome ctx (env a) = Threw e \<Longrightarrow> retryable (error_text e d) \<Longrightarrow>
   submit_loop ctx f d w env r a le b =
     (fst (run_attempt ctx f w (env a)) @ Sleep b
        # fst (submit_loop ctx f d w env r (a + 1) (error_text e d) (b * 2)),
      snd (submit_loop ctx f d w env r (a + 1) (error_text e d) (b * 2)))"
  by (subst loop_step) simp

lemma loop_fatal:
  "a \<le> r \<Longrightarrow> attempt_outcome ctx (env a) = Threw e \<Longrightarrow> \<not> retryable (error_text e d) \<Longrightarrow>
   submit_loop ctx f d w env r a le b =
     (fst (run_attempt ctx f w (env a)) @ fst (give_up (error_text e d)),
      failure (error_text e d))"
  by (subst loop_step) simp

text \<open>The five ways one turn of the loop can go.\<close>

lemma loop_cases:
  obtains (finished) "\<not> a \<le> r"
  | (confirmed) h where "a \<le> r" "attempt_outcome ctx (env a) = Confirmed h"
  | (not_confirmed) "a \<le> r" "attempt_outcome ctx (env a) = NotConfirmed"
  | (retry) e where "a \<le> r" "attempt_outcome ctx (env a) = Threw e" "retryable (error_text e d)"
  | (fatal) e where "a \<le> r" "attempt_outcome ctx (env a) = Threw e" "\<not> retryable (error_text e d)"
  by (cases "a \<le> r"; cases "attempt_outcome ctx (env a)") auto

lemma loop_attempts_le:
  "connected ctx \<Longrightarrow>
   nonce_requests (fst (submit_loop ctx f d w env r a le b)) \<le> r + 1 - a"
proof (induction "r + 1 - a" arbitrary: a le b)
  case 0
  then show ?case by (simp add: loop_done give_up_quiet)
next
  case (Suc n)
  then have n: "n = r + 1 - (a + 1)" by simp
  note IH = Suc.hyps(1) [OF n Suc.prems]
  note one = run_attempt_nonce_requests [OF Suc.prems]
  show ?case
  proof (cases rule: loop_cases [where a = a and r = r and ctx = ctx and env = env and d = d])
    case finished
    with Suc.hyps(2) show ?thesis by simp
  next
    case (confirmed h)
    then show ?thesis by (simp add: loop_confirmed nonce_requests_append one)
  next
    case not_confirmed
    with IH [of "''Transaction not confirmed in time''" b] show ?thesis
      by (simp add: loop_not_confirmed nonce_requests_append one)
  next
    case (retry e)
    with IH [of "error_text e d" "b * 2"] show ?thesis
      by (simp add: loop_retry nonce_requests_append one)
  next
    case (fatal e)
    then show ?thesis by (simp add: loop_fatal nonce_requests_append one give_up_quiet)
  qed
qed

lemma doubling_shift:
  "b # map (\<lambda>i. b * 2 * 2 ^ i) [0..<m] = map (\<lambda>i. b * 2 ^ i) [0..<Suc m]" for b :: nat
  by (simp add: map_upt_Suc mult.assoc del: upt_Suc)

lemma loop_waits:
  "waits (fst (submit_loop ctx f d w env r a le b)) =
     map (\<lambda>i. b * 2 ^ i) [0..<length (waits (fst (submit_loop ctx f d w env r a le b)))]"
proof (induction "r + 1 - a" arbitrary: a le b)
  case 0
  then show ?case by (simp add: loop_done give_up_quiet)
next
  case (Suc n)
  then have n: "n = r + 1 - (a + 1)" by simp
  note IH = Suc.hyps(1) [OF n]
  show ?case
  proof (cases rule: loop_cases [where a = a and r = r and ctx = ctx and env = env and d = d])
    case finished
    with Suc.hyps(2) show ?thesis by simp
  next
    case (confirmed h)
    then show ?thesis by (simp add: loop_confirmed waits_append run_attempt_waits)
  next
    case not_confirmed
    with IH [of "''Transaction not confirmed in time''" b] show ?thesis
      by (simp add: loop_not_confirmed waits_append run_attempt_waits)
  next
    case (retry e)
    let ?rest = "waits (fst (submit_loop ctx f d w env r (a + 1) (error_text e d) (b * 2)))"
    have "?rest = map (\<lambda>i. b * 2 * 2 ^ i) [0..<length ?rest]"
      using IH [of "error_text e d" "b * 2"] .
    then have "b # ?rest = map (\<lambda>i. b * 2 ^ i) [0..<Suc (length ?rest)]"
      using doubling_shift [of b "length ?rest"] by simp
    with retry show ?thesis
      by (simp add: loop_retry waits_append run_attempt_waits del: upt_Suc)
  next
    case (fatal e)
    then show ?thesis by (simp add: loop_fatal waits_append run_attempt_waits give_up_quiet)
  qed
qed

lemma loop_gives_up:
  "connected ctx \<Longrightarrow> a \<le> k \<Longrightarrow>
   k < a + nonce_requests (fst (submit_loop ctx f d w env r a le b)) \<Longrightarrow>
   fatal_text ctx d (env k) = Some m \<Longrightarrow>
   a + nonce_requests (fst (submit_loop ctx f d w env r a le b)) = Suc k
   \<and> snd (submit_loop ctx f d w env r a le b) = failure m"
proof (induction "r + 1 - a" arbitrary: a le b)
  case 0
  then show ?case by (simp add: loop_done give_up_quiet)
next
  case (Suc n)
  then have n: "n = r + 1 - (a + 1)" by simp
  note IH = Suc.hyps(1) [OF n Suc.prems(1)]
  note one = run_attempt_nonce_requests [OF Suc.prems(1)]
  show ?case
  proof (cases rule: loop_cases [where a = a and r = r and ctx = ctx and env = env and d = d])
    case finished
    with Suc.hyps(2) show ?thesis by simp
  next
    case (confirmed h)
    with Suc.prems show ?thesis
      by (simp add: loop_confirmed nonce_requests_append one fatal_text_def)
         (cases "k = a"; simp)
  next
    case not_confirmed
    with Suc.prems(4) have "k \<noteq> a" by (auto simp: fatal_text_def)
    with Suc.prems(2) have k: "a + 1 \<le> k" by simp
    from Suc.prems(3) not_confirmed
    have "k < a + 1 + nonce_requests (fst (submit_loop ctx f d w env r (a + 1) ''Transaction not confirmed in time'' b))"
      by (simp add: loop_not_confirmed nonce_requests_append one)
    from IH [OF k this Suc.prems(4)] not_confirmed show ?thesis
      by (simp add: loop_not_confirmed nonce_requests_append one)
  next
    case (retry e)
    with Suc.prems(4) have "k \<noteq> a" by (auto simp: fatal_text_def)
    with Suc.prems(2) have k: "a + 1 \<le> k" by simp
    from Suc.prems(3) retry
    have "k < a + 1 + nonce_requests (fst (submit_loop ctx f d w env r (a + 1) (error_text e d) (b * 2)))"
      by (simp add: loop_retry nonce_requests_append one)
    from IH [OF k this Suc.prems(4)] retry show ?thesis
      by (simp add: loop_retry nonce_requests_append one)
  next
    case (fatal e)
    with Suc.prems(2,3) have "k = a"
      by (simp add: loop_fatal nonce_requests_append one give_up_quiet)
    with fatal Suc.prems(4) show ?thesis
      by (simp add: loop_fatal nonce_requests_append one give_up_quiet fatal_text_def)
  qed
qed

lemma nonce_tags_append: "nonce_tags (xs @ ys) = nonce_tags xs @ nonce_tags ys"
  by (induction xs rule: nonce_tags.induct) simp_all

lemma verifyPool_quiet:
  "waits (fst (verifyPool ctx pe)) = []" "nonce_requests (fst (verifyPool ctx pe)) = 0"
  "writes (fst (verifyPool ctx pe)) = []" "hashes (fst (verifyPool ctx pe)) = []"
  "nonce_tags (fst (verifyPool ctx pe)) = []"
  by (simp_all add: verifyPool_def split: sum.splits prod.splits)

lemma give_up_quiet':
  "hashes (fst (give_up m)) = []" "nonce_tags (fst (give_up m)) = []"
  "estimates (fst (give_up m)) = []"
  by (simp_all add: give_up_def)

lemma pool_check_quiet:
  "waits (fst (pool_check ctx pe)) = []" "nonce_requests (fst (pool_check ctx pe)) = 0"
  "writes (fst (pool_check ctx pe)) = []" "hashes (fst (pool_check ctx pe)) = []"
  "nonce_tags (fst (pool_check ctx pe)) = []"
  by (simp_all add: pool_check_def verifyPool_quiet)

lemma processing_quiet:
  "waits processing = []" "nonce_requests processing = 0" "writes processing = []"
  "hashes processing = []" "nonce_tags processing = []"
  by (simp_all add: processing_def)

lemmas quiet = pool_check_quiet processing_quiet nonce_requests_append waits_append
  writes_append hashes_append nonce_tags_append

text \<open>What stake does before the loop, and that nothing else reaches the wallet.\<close>

lemma stake_cases:
  obtains (refused)
    "nonce_requests (fst (stake lib ctx pe env amount retries)) = 0"
    "waits (fst (stake lib ctx pe env amount retries)) = []"
    "writes (fst (stake lib ctx pe env amount retries)) = []"
    "hashes (fst (stake lib ctx pe env amount retries)) = []"
    "nonce_tags (fst (stake lib ctx pe env amount retries)) = []"
    "\<forall>r. snd (stake lib ctx pe env amount retries) = Inr r \<longrightarrow> \<not> success r \<and> hash r = None"
  | (submitted) w pre where
    "connected ctx" "parseUnits lib amount 18 = Some w"
    "\<not> over_balance ctx w" "\<not> under_allowance ctx w"
    "nonce_requests pre = 0" "waits pre = []" "writes pre = []" "hashes pre = []"
    "nonce_tags pre = []"
    "stake lib ctx pe env amount retries =
       (pre @ fst (submit_loop ctx ''deposit'' ''Stake failed'' w env (retries_or_default retries) 1 [] 3000),
        Inr (snd (submit_loop ctx ''deposit'' ''Stake failed'' w env (retries_or_default retries) 1 [] 3000)))"
proof -
  let ?S = "stake lib ctx pe env amount retries"
  obtain e0 ok where vp: "pool_check ctx pe = (e0, ok)"
    by (cases "pool_check ctx pe") simp
  have e0: "waits e0 = []" "nonce_requests e0 = 0" "writes e0 = []" "hashes e0 = []"
    "nonce_tags e0 = []"
    using pool_check_quiet [of ctx pe] by (simp_all add: vp)
  consider (a) "wallet_missing ctx"
    | (b) "\<not> wallet_missing ctx" "invalid_amount lib amount"
    | (c) "\<not> wallet_missing ctx" "\<not> invalid_amount lib amount" "\<not> ok"
    | (d) "\<not> wallet_missing ctx" "\<not> invalid_amount lib amount" "ok" "parseUnits lib amount 18 = None"
    | (e) w where "\<not> wallet_missing ctx" "\<not> invalid_amount lib amount" "ok"
        "parseUnits lib amount 18 = Some w" "over_balance ctx w"
    | (f) w where "\<not> wallet_missing ctx" "\<not> invalid_amount lib amount" "ok"
        "parseUnits lib amount 18 = Some w" "\<not> over_balance ctx w" "under_allowance ctx w"
    | (g) w where "\<not> wallet_missing ctx" "\<not> invalid_amount lib amount" "ok"
        "parseUnits lib amount 18 = Some w" "\<not> over_balance ctx w" "\<not> under_allowance ctx w"
    by (cases "parseUnits lib amount 18") auto
  then show thesis
  proof cases
    case a
    then have "?S = ([], Inr (failure ''Wallet not connected''))" by (simp add: stake_def)
    then show ?thesis by (intro refused) (simp_all add: failure_def)
  next
    case b
    then have "?S = ([], Inr (failure ''Invalid amount''))" by (simp add: stake_def)
    then show ?thesis by (intro refused) (simp_all add: failure_def)
  next
    case c
    then have "?S = (e0, Inr (failure (str_or (poolError ctx) ''Pool verification failed'')))"
      by (simp add: stake_def vp)
    then show ?thesis using e0 by (intro refused) (simp_all add: failure_def)
  next
    case d
    then have "?S = (e0 @ processing, Inl (InvalidDecimalNumberError amount))"
      by (simp add: stake_def vp)
    then show ?thesis using e0 by (intro refused) (simp_all add: quiet)
  next
    case e
    then have "?S = (e0 @ processing @ [SetIsProcessing False], Inr (failure ''Insufficient LP balance''))"
      by (simp add: stake_def vp)
    then show ?thesis using e0 by (intro refused) (simp_all add: quiet failure_def)
  next
    case f
    then have "?S = (e0 @ processing @ [SetIsProcessing False], Inr (failure ''Please approve LP tokens first''))"
      by (simp add: stake_def vp)
    then show ?thesis using e0 by (intro refused) (simp_all add: quiet failure_def)
  next
    case g
    then have "?S = ((e0 @ processing) @ fst (submit_loop ctx ''deposit'' ''Stake failed'' w env (retries_or_default retries) 1 [] 3000),
        Inr (snd (submit_loop ctx ''deposit'' ''Stake failed'' w env (retries_or_default retries) 1 [] 3000)))"
      by (simp add: stake_def vp split: prod.splits)
    moreover have "connected ctx" using g(1) by (simp add: connected_def wallet_missing_def)
    ultimately show ?thesis using g e0
      by (intro submitted [of w "e0 @ processing"]) (simp_all add: quiet)
  qed
qed

lemma unstake_cases:
  obtains (refused)
    "nonce_requests (fst (unstake lib ctx env amount retries)) = 0"
    "waits (fst (unstake lib ctx env amount retries)) = []"
    "writes (fst (unstake lib ctx env amount retries)) = []"
    "hashes (fst (unstake lib ctx env amount retries)) = []"
    "nonce_tags (fst (unstake lib ctx env amount retries)) = []"
    "\<forall>r. snd (unstake lib ctx env amount retries) = Inr r \<longrightarrow> \<not> success r \<and> hash r = None"
  | (submitted) w pre where
    "connected ctx" "parseUnits lib amount 18 = Some w"
    "nonce_requests pre = 0" "waits pre = []" "writes pre = []" "hashes pre = []"
    "nonce_tags pre = []"
    "unstake lib ctx env amount retries =
       (pre @ fst (submit_loop ctx ''withdraw'' ''Unstake failed'' w env (retries_or_default retries) 1 [] 3000),
        Inr (snd (submit_loop ctx ''withdraw'' ''Unstake failed'' w env (retries_or_default retries) 1 [] 3000)))"
proof -
  let ?S = "unstake lib ctx env amount retries"
  consider (a) "wallet_missing ctx"
    | (b) "\<not> wallet_missing ctx" "invalid_amount lib amount"
    | (d) "\<not> wallet_missing ctx" "\<not> invalid_amount lib amount" "parseUnits lib amount 18 = None"
    | (g) w where "\<not> wallet_missing ctx" "\<not> invalid_amount lib amount"
        "parseUnits lib amount 18 = Some w"
    by (cases "parseUnits lib amount 18") auto
  then show thesis
  proof cases
    case a
    then have "?S = ([], Inr (failure ''Wallet not connected''))" by (simp add: unstake_def)
    then show ?thesis by (intro refused) (simp_all add: failure_def)
  next
    case b
    then have "?S = ([], Inr (failure ''Invalid amount''))" by (simp add: unstake_def)
    then show ?thesis by (intro refused) (simp_all add: failure_def)
  next
    case d
    then have "?S = (processing, Inl (InvalidDecimalNumberError amount))"
      by (simp add: unstake_def)
    then show ?thesis by (intro refused) (simp_all add: quiet)
  next
    case g
    then have "?S = (processing @ fst (submit_loop ctx ''withdraw'' ''Unstake failed'' w env (retries_or_default retries) 1 [] 3000),
        Inr (snd (submit_loop ctx ''withdraw'' ''Unstake failed'' w env (retries_or_default retries) 1 [] 3000)))"
      by (simp add: unstake_def split: prod.splits)
    moreover have "connected ctx" using g(1) by (simp add: connected_def wallet_missing_def)
    ultimately show ?thesis using g
      by (intro submitted [of w processing]) (simp_all add: quiet)
  qed
qed

lemma demo_connected: "connected demo_ctx" "\<not> wallet_missing demo_ctx"
  by (simp_all add: connected_def wallet_missing_def demo_ctx_def falsy_str_def)

lemma r1: "retryable ''nonce too low''" by (simp add: retryable_def)
lemma r2: "retryable ''transaction was replaced''" by (simp add: retryable_def)
lemma r3: "\<not> retryable ''User rejected the request.''" by (simp add: retryable_def)

lemma flaky_outcome:
  "attempt_outcome demo_ctx (flaky_env k) =
     Threw (thrown (if k = 1 then ''nonce too low''
                    else if k = 2 then ''transaction was replaced''
                    else ''User rejected the request.''))"
  by (simp add: attempt_outcome_def run_attempt_def getFreshNonce_def estimateGasWithBuffer_def
      demo_connected flaky_env_def quiet_attempt_def)

lemma thrown_text: "m \<noteq> [] \<Longrightarrow> error_text (thrown m) d = m"
  by (simp add: error_text_def thrown_def str_or_def)

lemma flaky_loop:
  "nonce_requests (fst (submit_loop demo_ctx f d w flaky_env 3 1 [] 3000)) = 3"
  "waits (fst (submit_loop demo_ctx f d w flaky_env 3 1 [] 3000)) = [3000, 6000]"
  "snd (submit_loop demo_ctx f d w flaky_env 3 1 [] 3000) = failure ''User rejected the request.''"
  by (simp_all add: loop_step [of demo_ctx f d w flaky_env] flaky_outcome thrown_text r1 r2 r3
      nonce_requests_append waits_append run_attempt_waits give_up_quiet
      run_attempt_nonce_requests [OF demo_connected(1)])

section \<open>The transaction submitter\<close>

lemma parse_five: "parseUnits decimal_lib ''5'' 18 = Some 5000000000000000000"
  by (simp add: decimal_lib_def whole_literal_def digit_of_def)

lemma parse_one: "parseUnits decimal_lib ''1'' 18 = Some 1000000000000000000"
  by (simp add: decimal_lib_def whole_literal_def digit_of_def)

lemma five_valid: "\<not> invalid_amount decimal_lib ''5''" "\<not> invalid_amount decimal_lib ''1''"
  by (simp_all add: invalid_amount_def decimal_lib_def whole_literal_def digit_of_def js_le_def)

lemma demo_stake:
  "stake decimal_lib demo_ctx demo_pool env ''5'' None =
     (processing @ fst (submit_loop demo_ctx ''deposit'' ''Stake failed'' 5000000000000000000 env 3 1 [] 3000),
      Inr (snd (submit_loop demo_ctx ''deposit'' ''Stake failed'' 5000000000000000000 env 3 1 [] 3000)))"
  by (simp add: stake_def demo_connected five_valid parse_five pool_check_def over_balance_def
      under_allowance_def falsy_big_def big_or_zero_def retries_or_default_def
      split: prod.splits)
     (simp add: demo_ctx_def)

lemma loop_attempts_ge:
  "connected ctx \<Longrightarrow> a \<le> r \<Longrightarrow> 1 \<le> nonce_requests (fst (submit_loop ctx f d w env r a le b))"
  by (cases rule: loop_cases [where a = a and r = r and ctx = ctx and env = env and d = d])
     (simp_all add: loop_confirmed loop_not_confirmed loop_retry loop_fatal
        nonce_requests_append run_attempt_nonce_requests)

lemma estimates_append: "estimates (xs @ ys) = estimates xs @ estimates ys"
  by (induction xs rule: estimates.induct) simp_all

lemma until_nonce_request_append:
  "nonce_requests xs = 0 \<Longrightarrow> until_nonce_request (xs @ ys) = xs @ until_nonce_request ys"
  by (induction xs rule: nonce_requests.induct) simp_all

lemma attempt_effects_skip:
  "nonce_requests xs = 0 \<Longrightarrow> attempt_effects k (xs @ ys) = attempt_effects k ys"
  by (induction xs rule: nonce_requests.induct) simp_all

lemma run_attempt_shape:
  "connected ctx \<Longrightarrow>
   \<exists>tl. fst (run_attempt ctx f w ae) = GetTransactionCount (str_or (account ctx) []) Pending # tl
     \<and> nonce_requests tl = 0"
  by (simp add: run_attempt_def getFreshNonce_def estimateGasWithBuffer_def
      split: sum.splits prod.splits)

lemma attempt_effects_run_first:
  assumes "connected ctx"
  shows "attempt_effects (Suc 0) (fst (run_attempt ctx f w ae) @ rest) =
     fst (run_attempt ctx f w ae) @ until_nonce_request rest"
proof -
  from run_attempt_shape [OF assms, of f w ae] obtain tl where
    "fst (run_attempt ctx f w ae) = GetTransactionCount (str_or (account ctx) []) Pending # tl"
    "nonce_requests tl = 0" by blast
  then show ?thesis by (simp add: until_nonce_request_append)
qed

lemma attempt_effects_run_later:
  assumes "connected ctx"
  shows "attempt_effects (Suc (Suc j)) (fst (run_attempt ctx f w ae) @ rest) =
     attempt_effects (Suc j) rest"
proof -
  from run_attempt_shape [OF assms, of f w ae] obtain tl where
    "fst (run_attempt ctx f w ae) = GetTransactionCount (str_or (account ctx) []) Pending # tl"
    "nonce_requests tl = 0" by blast
  then show ?thesis by (simp add: attempt_effects_skip)
qed

lemma until_nonce_request_run:
  assumes "connected ctx"
  shows "until_nonce_request (fst (run_attempt ctx f w ae) @ rest) = []"
proof -
  from run_attempt_shape [OF assms, of f w ae] obtain tl where
    "fst (run_attempt ctx f w ae) = GetTransactionCount (str_or (account ctx) []) Pending # tl"
    by blast
  then show ?thesis by simp
qed

lemma loop_head:
  assumes "connected ctx"
  shows "until_nonce_request (fst (submit_loop ctx f d w env r a le b)) =
     (if a \<le> r then [] else fst (give_up le))"
  by (cases rule: loop_cases [where a = a and r = r and ctx = ctx and env = env and d = d])
     (simp_all add: loop_done loop_confirmed loop_not_confirmed loop_retry loop_fatal
        until_nonce_request_run [OF assms] give_up_def)

lemma upt_head: "a < k \<Longrightarrow> [a..<k] = a # [Suc a..<k]"
  by (simp add: upt_conv_Cons)

text \<open>The effects of the attempts of the loop, one by one.\<close>

lemma loop_attempt:
  assumes c: "connected ctx"
  shows "a \<le> k \<Longrightarrow> k < a + nonce_requests (fst (submit_loop ctx f d w env r a le b)) \<Longrightarrow>
    \<exists>tl. attempt_effects (Suc (k - a)) (fst (submit_loop ctx f d w env r a le b))
            = fst (run_attempt ctx f w (env k)) @ tl
       \<and> writes tl = [] \<and> estimates tl = [] \<and> nonce_tags tl = []
       \<and> waits tl =
           (if retried_after_wait ctx d (env k)
            then [b * 2 ^ length (filter (\<lambda>j. retried_after_wait ctx d (env j)) [a..<k])]
            else [])"
proof (induction "r + 1 - a" arbitrary: a le b)
  case 0
  then show ?case by (simp add: loop_done give_up_quiet)
next
  case (Suc n)
  then have n: "n = r + 1 - (a + 1)" by simp
  note IH = Suc.hyps(1) [OF n]
  note one = run_attempt_nonce_requests [OF c]
  note first = attempt_effects_run_first [OF c]
  note later = attempt_effects_run_later [OF c]
  note head = loop_head [OF c]
  show ?case
  proof (cases rule: loop_cases [where a = a and r = r and ctx = ctx and env = env and d = d])
    case finished
    with Suc.hyps(2) show ?thesis by simp
  next
    case (confirmed h)
    with Suc.prems have k: "k = a" by (simp add: loop_confirmed nonce_requests_append one)
    from confirmed have nr: "\<not> retried_after_wait ctx d (env a)"
      by (simp add: retried_after_wait_def)
    show ?thesis unfolding k
      using confirmed nr by (simp add: loop_confirmed first)
  next
    case not_confirmed
    let ?L = "submit_loop ctx f d w env r (a + 1) ''Transaction not confirmed in time'' b"
    from not_confirmed have nr: "\<not> retried_after_wait ctx d (env a)"
      by (simp add: retried_after_wait_def)
    show ?thesis
    proof (cases "k = a")
      case True
      show ?thesis unfolding True
        using not_confirmed nr
        by (simp add: loop_not_confirmed first head give_up_quiet give_up_quiet')
    next
      case False
      with Suc.prems(1) have k: "a + 1 \<le> k" "a < k" by simp_all
      then obtain j where j: "k - a = Suc j" "k - Suc a = j" by (cases "k - a") simp_all
      from Suc.prems(2) not_confirmed have "k < a + 1 + nonce_requests (fst ?L)"
        by (simp add: loop_not_confirmed nonce_requests_append one)
      from IH [OF k(1) this] not_confirmed nr show ?thesis
        by (simp add: loop_not_confirmed later j upt_head [OF k(2)] cong: if_cong)
    qed
  next
    case (retry e)
    let ?L = "submit_loop ctx f d w env r (a + 1) (error_text e d) (b * 2)"
    from retry have yr: "retried_after_wait ctx d (env a)"
      by (simp add: retried_after_wait_def)
    show ?thesis
    proof (cases "k = a")
      case True
      show ?thesis unfolding True
        using retry yr
        by (simp add: loop_retry first head give_up_quiet give_up_quiet')
    next
      case False
      with Suc.prems(1) have k: "a + 1 \<le> k" "a < k" by simp_all
      then obtain j where j: "k - a = Suc j" "k - Suc a = j" by (cases "k - a") simp_all
      from Suc.prems(2) retry have "k < a + 1 + nonce_requests (fst ?L)"
        by (simp add: loop_retry nonce_requests_append one)
      from IH [OF k(1) this] retry yr show ?thesis
        by (simp add: loop_retry later j upt_head [OF k(2)] mult.assoc cong: if_cong)
    qed
  next
    case (fatal e)
    with Suc.prems have k: "k = a"
      by (simp add: loop_fatal nonce_requests_append one give_up_quiet)
    from fatal have nr: "\<not> retried_after_wait ctx d (env a)"
      by (simp add: retried_after_wait_def)
    show ?thesis unfolding k
      using fatal nr by (simp add: loop_fatal first give_up_def)
  qed
qed

lemma loop_continues:
  "connected ctx \<Longrightarrow> a \<le> k \<Longrightarrow>
   k < a + nonce_requests (fst (submit_loop ctx f d w env r a le b)) \<Longrightarrow>
   attempt_outcome ctx (env k) = NotConfirmed \<or> retried_after_wait ctx d (env k) \<Longrightarrow> k < r \<Longrightarrow>
   Suc k < a + nonce_requests (fst (submit_loop ctx f d w env r a le b))"
proof (induction "r + 1 - a" arbitrary: a le b)
  case 0
  then show ?case by (simp add: loop_done give_up_quiet)
next
  case (Suc n)
  then have n: "n = r + 1 - (a + 1)" by simp
  note IH = Suc.hyps(1) [OF n Suc.prems(1)]
  note one = run_attempt_nonce_requests [OF Suc.prems(1)]
  show ?case
  proof (cases rule: loop_cases [where a = a and r = r and ctx = ctx and env = env and d = d])
    case finished
    with Suc.hyps(2) show ?thesis by simp
  next
    case (confirmed h)
    with Suc.prems show ?thesis
      by (simp add: loop_confirmed nonce_requests_append one retried_after_wait_def)
         (cases "k = a"; simp)
  next
    case not_confirmed
    let ?L = "submit_loop ctx f d w env r (a + 1) ''Transaction not confirmed in time'' b"
    show ?thesis
    proof (cases "k = a")
      case True
      with Suc.prems(5) have "a + 1 \<le> r" by simp
      from loop_attempts_ge [OF Suc.prems(1) this, of f d w env "''Transaction not confirmed in time''" b]
        True not_confirmed show ?thesis
        by (simp add: loop_not_confirmed nonce_requests_append one)
    next
      case False
      with Suc.prems(2) have k: "a + 1 \<le> k" by simp
      from Suc.prems(3) not_confirmed have "k < a + 1 + nonce_requests (fst ?L)"
        by (simp add: loop_not_confirmed nonce_requests_append one)
      from IH [OF k this Suc.prems(4,5)] not_confirmed show ?thesis
        by (simp add: loop_not_confirmed nonce_requests_append one)
    qed
  next
    case (retry e)
    let ?L = "submit_loop ctx f d w env r (a + 1) (error_text e d) (b * 2)"
    show ?thesis
    proof (cases "k = a")
      case True
      with Suc.prems(5) have "a + 1 \<le> r" by simp
      from loop_attempts_ge [OF Suc.prems(1) this, of f d w env "error_text e d" "b * 2"]
        True retry show ?thesis
        by (simp add: loop_retry nonce_requests_append one)
    next
      case False
      with Suc.prems(2) have k: "a + 1 \<le> k" by simp
      from Suc.prems(3) retry have "k < a + 1 + nonce_requests (fst ?L)"
        by (simp add: loop_retry nonce_requests_append one)
      from IH [OF k this Suc.prems(4,5)] retry show ?thesis
        by (simp add: loop_retry nonce_requests_append one)
    qed
  next
    case (fatal e)
    with Suc.prems(2,3) have "k = a"
      by (simp add: loop_fatal nonce_requests_append one give_up_quiet)
    with fatal Suc.prems(4) show ?thesis by (simp add: retried_after_wait_def)
  qed
qed

text \<open>The result of a run whose last attempt failed carries the message of that attempt.\<close>

lemma loop_last:
  "connected ctx \<Longrightarrow> a \<le> k \<Longrightarrow>
   a + nonce_requests (fst (submit_loop ctx f d w env r a le b)) = Suc k \<Longrightarrow>
   failure_text ctx d (env k) = Some m \<Longrightarrow>
   snd (submit_loop ctx f d w env r a le b) = failure m"
proof (induction "r + 1 - a" arbitrary: a le b)
  case 0
  then show ?case by (simp add: loop_done give_up_quiet)
next
  case (Suc n)
  then have n: "n = r + 1 - (a + 1)" by simp
  note IH = Suc.hyps(1) [OF n Suc.prems(1)]
  note one = run_attempt_nonce_requests [OF Suc.prems(1)]
  have stop: "submit_loop ctx f d w env r (a + 1) le' b' = give_up le'"
    if "nonce_requests (fst (submit_loop ctx f d w env r (a + 1) le' b')) = 0" for le' b'
  proof (rule loop_done)
    show "\<not> a + 1 \<le> r"
      using loop_attempts_ge [OF Suc.prems(1), of "a + 1" r f d w env le' b'] that by auto
  qed
  show ?case
  proof (cases rule: loop_cases [where a = a and r = r and ctx = ctx and env = env and d = d])
    case finished
    with Suc.hyps(2) show ?thesis by simp
  next
    case (confirmed h)
    with Suc.prems have "k = a" by (simp add: loop_confirmed nonce_requests_append one)
    with confirmed Suc.prems(4) show ?thesis by (simp add: failure_text_def)
  next
    case not_confirmed
    let ?L = "submit_loop ctx f d w env r (a + 1) ''Transaction not confirmed in time'' b"
    from Suc.prems(3) not_confirmed have s: "a + 1 + nonce_requests (fst ?L) = Suc k"
      by (simp add: loop_not_confirmed nonce_requests_append one)
    show ?thesis
    proof (cases "k = a")
      case True
      with s have "nonce_requests (fst ?L) = 0" by simp
      from stop [OF this] True not_confirmed Suc.prems(4) show ?thesis
        by (simp add: loop_not_confirmed failure_text_def give_up_quiet)
    next
      case False
      with Suc.prems(2) have k: "a + 1 \<le> k" by simp
      from IH [OF k s Suc.prems(4)] not_confirmed show ?thesis
        by (simp add: loop_not_confirmed)
    qed
  next
    case (retry e)
    let ?L = "submit_loop ctx f d w env r (a + 1) (error_text e d) (b * 2)"
    from Suc.prems(3) retry have s: "a + 1 + nonce_requests (fst ?L) = Suc k"
      by (simp add: loop_retry nonce_requests_append one)
    show ?thesis
    proof (cases "k = a")
      case True
      with s have "nonce_requests (fst ?L) = 0" by simp
      from stop [OF this] True retry Suc.prems(4) show ?thesis
        by (simp add: loop_retry failure_text_def give_up_quiet)
    next
      case False
      with Suc.prems(2) have k: "a + 1 \<le> k" by simp
      from IH [OF k s Suc.prems(4)] retry show ?thesis
        by (simp add: loop_retry)
    qed
  next
    case (fatal e)
    with Suc.prems(2,3) have "k = a"
      by (simp add: loop_fatal nonce_requests_append one give_up_quiet)
    with fatal Suc.prems(4) show ?thesis by (simp add: loop_fatal failure_text_def)
  qed
qed

lemma retried_after_wait_iff:
  "retried_after_wait ctx d ae \<longleftrightarrow>
     (\<exists>e. attempt_outcome ctx ae = Threw e \<and> retryable (error_text e d))"
  by (cases "attempt_outcome ctx ae") (simp_all add: retried_after_wait_def)

text \<open>The policy of the loop as both submitters start it.\<close>

lemma loop_policy:
  fixes ctx f d w env r
  defines "L \<equiv> submit_loop ctx f d w env r 1 [] 3000"
  assumes c: "connected ctx"
  shows
  "nonce_requests (fst L) \<le> r
   \<and> waits (fst L) = map (\<lambda>i. 3000 * 2 ^ i) [0..<length (waits (fst L))]
   \<and> (\<forall>k e. 1 \<le> k \<and> k \<le> nonce_requests (fst L) \<and> attempt_outcome ctx (env k) = Threw e
          \<and> retryable (error_text e d) \<longrightarrow>
        waits (attempt_effects k (fst L)) =
          [3000 * 2 ^ length (filter (\<lambda>j. retried_after_wait ctx d (env j)) [1..<k])]
        \<and> (k < r \<longrightarrow> k < nonce_requests (fst L))
        \<and> (k = r \<longrightarrow> snd L = failure (error_text e d)))
   \<and> (\<forall>k e. 1 \<le> k \<and> k \<le> nonce_requests (fst L) \<and> attempt_outcome ctx (env k) = Threw e
          \<and> \<not> retryable (error_text e d) \<longrightarrow>
        nonce_requests (fst L) = k \<and> waits (attempt_effects k (fst L)) = []
        \<and> snd L = failure (error_text e d))
   \<and> (\<forall>k. 1 \<le> k \<and> k \<le> nonce_requests (fst L) \<and> attempt_outcome ctx (env k) = NotConfirmed \<longrightarrow>
        waits (attempt_effects k (fst L)) = []
        \<and> (k < r \<longrightarrow> k < nonce_requests (fst L))
        \<and> (k = r \<longrightarrow> snd L = failure ''Transaction not confirmed in time''))"
proof -
  have le: "nonce_requests (fst L) \<le> r"
    using loop_attempts_le [OF c, of f d w env r 1 "[]" 3000] by (simp add: L_def)
  have ws: "waits (fst L) = map (\<lambda>i. 3000 * 2 ^ i) [0..<length (waits (fst L))]"
    unfolding L_def by (rule loop_waits)
  have seg: "waits (attempt_effects k (fst L)) =
      (if retried_after_wait ctx d (env k)
       then [3000 * 2 ^ length (filter (\<lambda>j. retried_after_wait ctx d (env j)) [1..<k])]
       else [])"
    if "1 \<le> k" "k \<le> nonce_requests (fst L)" for k
  proof -
    from that obtain j where j: "k = Suc j" by (cases k) simp_all
    from loop_attempt [OF c, where a = 1 and k = k and f = f and d = d and w = w and env = env
        and r = r and le = "[]" and b = 3000] that
    obtain tl where "attempt_effects (Suc (k - 1)) (fst L) = fst (run_attempt ctx f w (env k)) @ tl"
      "waits tl = (if retried_after_wait ctx d (env k)
            then [3000 * 2 ^ length (filter (\<lambda>j. retried_after_wait ctx d (env j)) [1..<k])]
            else [])"
      unfolding L_def by auto
    then show ?thesis by (simp add: j waits_append run_attempt_waits)
  qed
  have more: "k < nonce_requests (fst L)"
    if "1 \<le> k" "k \<le> nonce_requests (fst L)"
      "attempt_outcome ctx (env k) = NotConfirmed \<or> retried_after_wait ctx d (env k)" "k < r" for k
    using loop_continues [where ctx = ctx and a = 1 and k = k and env = env
        and f = f and d = d and w = w and r = r and le = "[]" and b = 3000] c that
    by (simp add: L_def)
  have last: "snd L = failure m"
    if "1 \<le> k" "k \<le> nonce_requests (fst L)" "k = r" "failure_text ctx d (env k) = Some m" for k m
  proof -
    from that(2,3) le have "1 + nonce_requests (fst L) = Suc k" by simp
    from loop_last [where ctx = ctx and a = 1 and k = k and env = env and m = m
        and f = f and d = d and w = w and r = r and le = "[]" and b = 3000, OF c that(1)
        this [unfolded L_def] that(4)]
    show ?thesis by (simp add: L_def)
  qed
  have fatal: "nonce_requests (fst L) = k \<and> snd L = failure m"
    if "1 \<le> k" "k \<le> nonce_requests (fst L)" "fatal_text ctx d (env k) = Some m" for k m
  proof -
    have "1 + nonce_requests (fst L) = Suc k \<and> snd L = failure m"
      using loop_gives_up [where ctx = ctx and a = 1 and k = k and env = env and m = m
          and f = f and d = d and w = w and r = r and le = "[]" and b = 3000] c that
      by (simp add: L_def)
    then show ?thesis by simp
  qed
  have A: "waits (attempt_effects k (fst L)) =
          [3000 * 2 ^ length (filter (\<lambda>j. retried_after_wait ctx d (env j)) [1..<k])]
        \<and> (k < r \<longrightarrow> k < nonce_requests (fst L))
        \<and> (k = r \<longrightarrow> snd L = failure (error_text e d))"
    if "1 \<le> k \<and> k \<le> nonce_requests (fst L) \<and> attempt_outcome ctx (env k) = Threw e
          \<and> retryable (error_text e d)" for k e
  proof -
    from that have k: "1 \<le> k" "k \<le> nonce_requests (fst L)"
      and o: "attempt_outcome ctx (env k) = Threw e" "retryable (error_text e d)" by simp_all
    from o have rw: "retried_after_wait ctx d (env k)" by (simp add: retried_after_wait_def)
    from o have ft: "failure_text ctx d (env k) = Some (error_text e d)"
      by (simp add: failure_text_def)
    from seg [OF k] rw more [OF k] last [OF k _ ft] show ?thesis by simp
  qed
  have B: "nonce_requests (fst L) = k \<and> waits (attempt_effects k (fst L)) = []
        \<and> snd L = failure (error_text e d)"
    if "1 \<le> k \<and> k \<le> nonce_requests (fst L) \<and> attempt_outcome ctx (env k) = Threw e
          \<and> \<not> retryable (error_text e d)" for k e
  proof -
    from that have k: "1 \<le> k" "k \<le> nonce_requests (fst L)"
      and o: "attempt_outcome ctx (env k) = Threw e" "\<not> retryable (error_text e d)" by simp_all
    from o have rw: "\<not> retried_after_wait ctx d (env k)" by (simp add: retried_after_wait_def)
    from o have ft: "fatal_text ctx d (env k) = Some (error_text e d)"
      by (simp add: fatal_text_def)
    from seg [OF k] rw fatal [OF k ft] show ?thesis by simp
  qed
  have C: "waits (attempt_effects k (fst L)) = []
        \<and> (k < r \<longrightarrow> k < nonce_requests (fst L))
        \<and> (k = r \<longrightarrow> snd L = failure ''Transaction not confirmed in time'')"
    if "1 \<le> k \<and> k \<le> nonce_requests (fst L) \<and> attempt_outcome ctx (env k) = NotConfirmed" for k
  proof -
    from that have k: "1 \<le> k" "k \<le> nonce_requests (fst L)"
      and o: "attempt_outcome ctx (env k) = NotConfirmed" by simp_all
    from o have rw: "\<not> retried_after_wait ctx d (env k)" by (simp add: retried_after_wait_def)
    from o have ft: "failure_text ctx d (env k) = Some ''Transaction not confirmed in time''"
      by (simp add: failure_text_def)
    from seg [OF k] rw more [OF k] o last [OF k _ ft] show ?thesis by simp
  qed
  from le ws A B C show ?thesis by blast
qed

text \<open>
  C2, as amended. The submitters \<open>stake\<close> and \<open>unstake\<close> make at most \<open>retries\<close> attempts,
  3 when the parameter is left out (an attempt opens with its request for the transaction
  count). After an attempt that threw an error whose message holds \<open>dropped\<close>, \<open>replaced\<close>
  or \<open>nonce\<close> they wait before the next attempt: 3000 ms doubled once for each earlier
  attempt that threw such an error, so that the waits of a run are 3000 ms, 6000 ms,
  12000 ms and so on; the next attempt follows as long as attempts remain, and after the
  last attempt the result is the failure carrying that message. An attempt that threw any
  other error is the last one: no wait and no attempt follows it, and the result is the
  failure carrying that error's message. An attempt whose transaction was sent and not
  confirmed in time is followed by the next attempt, with no wait, as long as attempts
  remain; after the last attempt the result is the failure with the message
  \<open>Transaction not confirmed in time\<close>.
\<close>

theorem retry_policy:
  fixes lib ctx pe env amount retries
  defines "S \<equiv> stake lib ctx pe env amount retries"
    and "U \<equiv> unstake lib ctx env amount retries"
    and "r \<equiv> (case retries of None \<Rightarrow> 3 | Some n \<Rightarrow> n)"
    and "words \<equiv> (\<lambda>t. str_includes t ''dropped'' \<or> str_includes t ''replaced''
                      \<or> str_includes t ''nonce'')"
  defines "retried \<equiv> (\<lambda>d k. \<exists>e. attempt_outcome ctx (env k) = Threw e \<and> words (error_text e d))"
  shows
  "nonce_requests (fst S) \<le> r
   \<and> waits (fst S) = map (\<lambda>i. 3000 * 2 ^ i) [0..<length (waits (fst S))]
   \<and> (\<forall>k e. 1 \<le> k \<and> k \<le> nonce_requests (fst S) \<and> attempt_outcome ctx (env k) = Threw e
          \<and> words (error_text e ''Stake failed'') \<longrightarrow>
        waits (attempt_effects k (fst S)) =
          [3000 * 2 ^ length (filter (retried ''Stake failed'') [1..<k])]
        \<and> (k < r \<longrightarrow> k < nonce_requests (fst S))
        \<and> (k = r \<longrightarrow> snd S = Inr (failure (error_text e ''Stake failed''))))
   \<and> (\<forall>k e. 1 \<le> k \<and> k \<le> nonce_requests (fst S) \<and> attempt_outcome ctx (env k) = Threw e
          \<and> \<not> words (error_text e ''Stake failed'') \<longrightarrow>
        nonce_requests (fst S) = k \<and> waits (attempt_effects k (fst S)) = []
        \<and> snd S = Inr (failure (error_text e ''Stake failed'')))
   \<and> (\<forall>k. 1 \<le> k \<and> k \<le> nonce_requests (fst S) \<and> attempt_outcome ctx (env k) = NotConfirmed \<longrightarrow>
        waits (attempt_effects k (fst S)) = []
        \<and> (k < r \<longrightarrow> k < nonce_requests (fst S))
        \<and> (k = r \<longrightarrow> snd S = Inr (failure ''Transaction not confirmed in time'')))
   \<and> nonce_requests (fst U) \<le> r
   \<and> waits (fst U) = map (\<lambda>i. 3000 * 2 ^ i) [0..<length (waits (fst U))]
   \<and> (\<forall>k e. 1 \<le> k \<and> k \<le> nonce_requests (fst U) \<and> attempt_outcome ctx (env k) = Threw e
          \<and> words (error_text e ''Unstake failed'') \<longrightarrow>
        waits (attempt_effects k (fst U)) =
          [3000 * 2 ^ length (filter (retried ''Unstake failed'') [1..<k])]
        \<and> (k < r \<longrightarrow> k < nonce_requests (fst U))
        \<and> (k = r \<longrightarrow> snd U = Inr (failure (error_text e ''Unstake failed''))))
   \<and> (\<forall>k e. 1 \<le> k \<and> k \<le> nonce_requests (fst U) \<and> attempt_outcome ctx (env k) = Threw e
          \<and> \<not> words (error_text e ''Unstake failed'') \<longrightarrow>
        nonce_requests (fst U) = k \<and> waits (attempt_effects k (fst U)) = []
        \<and> snd U = Inr (failure (error_text e ''Unstake failed'')))
   \<and> (\<forall>k. 1 \<le> k \<and> k \<le> nonce_requests (fst U) \<and> attempt_outcome ctx (env k) = NotConfirmed \<longrightarrow>
        waits (attempt_effects k (fst U)) = []
        \<and> (k < r \<longrightarrow> k < nonce_requests (fst U))
        \<and> (k = r \<longrightarrow> snd U = Inr (failure ''Transaction not confirmed in time'')))"
proof -
  have wd: "words = retryable" by (simp add: words_def retryable_def fun_eq_iff)
  have rt: "retried d = (\<lambda>k. retried_after_wait ctx d (env k))" for d
    by (simp add: retried_def wd retried_after_wait_iff fun_eq_iff)
  have rd: "r = retries_or_default retries" by (simp add: r_def retries_or_default_def)
  have s: "nonce_requests (fst S) \<le> r
   \<and> waits (fst S) = map (\<lambda>i. 3000 * 2 ^ i) [0..<length (waits (fst S))]
   \<and> (\<forall>k e. 1 \<le> k \<and> k \<le> nonce_requests (fst S) \<and> attempt_outcome ctx (env k) = Threw e
          \<and> words (error_text e ''Stake failed'') \<longrightarrow>
        waits (attempt_effects k (fst S)) =
          [3000 * 2 ^ length (filter (retried ''Stake failed'') [1..<k])]
        \<and> (k < r \<longrightarrow> k < nonce_requests (fst S))
        \<and> (k = r \<longrightarrow> snd S = Inr (failure (error_text e ''Stake failed''))))
   \<and> (\<forall>k e. 1 \<le> k \<and> k \<le> nonce_requests (fst S) \<and> attempt_outcome ctx (env k) = Threw e
          \<and> \<not> words (error_text e ''Stake failed'') \<longrightarrow>
        nonce_requests (fst S) = k \<and> waits (attempt_effects k (fst S)) = []
        \<and> snd S = Inr (failure (error_text e ''Stake failed'')))
   \<and> (\<forall>k. 1 \<le> k \<and> k \<le> nonce_requests (fst S) \<and> attempt_outcome ctx (env k) = NotConfirmed \<longrightarrow>
        waits (attempt_effects k (fst S)) = []
        \<and> (k < r \<longrightarrow> k < nonce_requests (fst S))
        \<and> (k = r \<longrightarrow> snd S = Inr (failure ''Transaction not confirmed in time'')))"
  proof (cases rule: stake_cases [of lib ctx pe env amount retries])
    case refused
    then show ?thesis by (simp add: S_def)
  next
    case (submitted w pre)
    let ?L = "submit_loop ctx ''deposit'' ''Stake failed'' w env r 1 [] 3000"
    have S: "snd S = Inr (snd ?L)" using submitted by (simp add: S_def rd)
    have n: "nonce_requests (fst S) = nonce_requests (fst ?L)"
      and w: "waits (fst S) = waits (fst ?L)"
      and ae: "attempt_effects k (fst S) = attempt_effects k (fst ?L)" for k
      using submitted
      by (simp_all add: S_def rd nonce_requests_append waits_append attempt_effects_skip)
    show ?thesis unfolding n w S ae wd rt sum.inject
      by (rule loop_policy [OF submitted(1), of "''deposit''" "''Stake failed''" w env r])
  qed
  have u: "nonce_requests (fst U) \<le> r
   \<and> waits (fst U) = map (\<lambda>i. 3000 * 2 ^ i) [0..<length (waits (fst U))]
   \<and> (\<forall>k e. 1 \<le> k \<and> k \<le> nonce_requests (fst U) \<and> attempt_outcome ctx (env k) = Threw e
          \<and> words (error_text e ''Unstake failed'') \<longrightarrow>
        waits (attempt_effects k (fst U)) =
          [3000 * 2 ^ length (filter (retried ''Unstake failed'') [1..<k])]
        \<and> (k < r \<longrightarrow> k < nonce_requests (fst U))
        \<and> (k = r \<longrightarrow> snd U = Inr (failure (error_text e ''Unstake failed''))))
   \<and> (\<forall>k e. 1 \<le> k \<and> k \<le> nonce_requests (fst U) \<and> attempt_outcome ctx (env k) = Threw e
          \<and> \<not> words (error_text e ''Unstake failed'') \<longrightarrow>
        nonce_requests (fst U) = k \<and> waits (attempt_effects k (fst U)) = []
        \<and> snd U = Inr (failure (error_text e ''Unstake failed'')))
   \<and> (\<forall>k. 1 \<le> k \<and> k \<le> nonce_requests (fst U) \<and> attempt_outcome ctx (env k) = NotConfirmed \<longrightarrow>
        waits (attempt_effects k (fst U)) = []
        \<and> (k < r \<longrightarrow> k < nonce_requests (fst U))
        \<and> (k = r \<longrightarrow> snd U = Inr (failure ''Transaction not confirmed in time'')))"
  proof (cases rule: unstake_cases [of lib ctx env amount retries])
    case refused
    then show ?thesis by (simp add: U_def)
  next
    case (submitted w pre)
    let ?L = "submit_loop ctx ''withdraw'' ''Unstake failed'' w env r 1 [] 3000"
    have S: "snd U = Inr (snd ?L)" using submitted by (simp add: U_def rd)
    have n: "nonce_requests (fst U) = nonce_requests (fst ?L)"
      and w: "waits (fst U) = waits (fst ?L)"
      and ae: "attempt_effects k (fst U) = attempt_effects k (fst ?L)" for k
      using submitted
      by (simp_all add: U_def rd nonce_requests_append waits_append attempt_effects_skip)
    show ?thesis unfolding n w S ae wd rt sum.inject
      by (rule loop_policy [OF submitted(1), of "''withdraw''" "''Unstake failed''" w env r])
  qed
  from s u show ?thesis by (elim conjE, intro conjI) assumption+
qed


lemma congested_outcome:
  "attempt_outcome demo_ctx (congested_env k) =
     Threw (thrown (if k = 1 then ''nonce too low''
                    else if k = 2 then ''transaction was replaced''
                    else ''transaction dropped''))"
  by (simp add: attempt_outcome_def run_attempt_def getFreshNonce_def estimateGasWithBuffer_def
      demo_connected congested_env_def quiet_attempt_def)

lemma r4: "retryable ''transaction dropped''" by (simp add: retryable_def)

lemma congested_loop:
  "nonce_requests (fst (submit_loop demo_ctx f d w congested_env 3 1 [] 3000)) = 3"
  "waits (fst (submit_loop demo_ctx f d w congested_env 3 1 [] 3000)) = [3000, 6000, 12000]"
  by (simp_all add: loop_step [of demo_ctx f d w congested_env] congested_outcome thrown_text r1 r2 r4
      nonce_requests_append waits_append run_attempt_waits give_up_quiet
      run_attempt_nonce_requests [OF demo_connected(1)])

lemma demo_unstake:
  "unstake decimal_lib demo_ctx env ''5'' None =
     (processing @ fst (submit_loop demo_ctx ''withdraw'' ''Unstake failed'' 5000000000000000000 env 3 1 [] 3000),
      Inr (snd (submit_loop demo_ctx ''withdraw'' ''Unstake failed'' 5000000000000000000 env 3 1 [] 3000)))"
  by (simp add: unstake_def demo_connected five_valid parse_five retries_or_default_def
      split: prod.splits)

lemma one_two: "[1..<3] = [1, 2 :: nat]" "[1..<2] = [1 :: nat]" "[1..<1] = ([] :: nat list)"
  by (simp_all add: upt_conv_Cons)

theorem retry_policy_witness:
  "nonce_requests (fst (stake decimal_lib demo_ctx demo_pool congested_env ''5'' None)) = 3
   \<and> waits (fst (stake decimal_lib demo_ctx demo_pool congested_env ''5'' None)) = [3000, 6000, 12000]
   \<and> waits (attempt_effects 1 (fst (stake decimal_lib demo_ctx demo_pool congested_env ''5'' None))) = [3000]
   \<and> waits (attempt_effects 2 (fst (stake decimal_lib demo_ctx demo_pool congested_env ''5'' None))) = [6000]
   \<and> waits (attempt_effects 3 (fst (stake decimal_lib demo_ctx demo_pool congested_env ''5'' None))) = [12000]
   \<and> snd (stake decimal_lib demo_ctx demo_pool congested_env ''5'' None)
       = Inr (failure ''transaction dropped'')
   \<and> nonce_requests (fst (unstake decimal_lib demo_ctx flaky_env ''5'' None)) = 3
   \<and> waits (attempt_effects 2 (fst (unstake decimal_lib demo_ctx flaky_env ''5'' None))) = [6000]
   \<and> waits (attempt_effects 3 (fst (unstake decimal_lib demo_ctx flaky_env ''5'' None))) = []
   \<and> snd (unstake decimal_lib demo_ctx flaky_env ''5'' None)
       = Inr (failure ''User rejected the request.'')"
proof -
  let ?S = "stake decimal_lib demo_ctx demo_pool congested_env ''5'' None"
  let ?U = "unstake decimal_lib demo_ctx flaky_env ''5'' None"
  have n: "nonce_requests (fst ?S) = 3"
    and w: "waits (fst ?S) = [3000, 6000, 12000]"
    by (simp_all add: demo_stake quiet congested_loop [unfolded One_nat_def])
  have nu: "nonce_requests (fst ?U) = 3"
    by (simp add: demo_unstake quiet flaky_loop [unfolded One_nat_def])
  note t = retry_policy [of decimal_lib demo_ctx demo_pool congested_env "''5''" None]
  note tu = retry_policy [of decimal_lib demo_ctx demo_pool flaky_env "''5''" None]
  note sr = t [THEN conjunct2, THEN conjunct2, THEN conjunct1, rule_format]
  note ur = tu [THEN conjunct2, THEN conjunct2, THEN conjunct2, THEN conjunct2, THEN conjunct2,
      THEN conjunct2, THEN conjunct2, THEN conjunct1, rule_format]
  note uf = tu [THEN conjunct2, THEN conjunct2, THEN conjunct2, THEN conjunct2, THEN conjunct2,
      THEN conjunct2, THEN conjunct2, THEN conjunct2, THEN conjunct1, rule_format]
  have s1: "waits (attempt_effects 1 (fst ?S)) = [3000]"
    using sr [of 1 "thrown ''nonce too low''"]
    by (simp add: n congested_outcome thrown_text one_two)
  have s2: "waits (attempt_effects 2 (fst ?S)) = [6000]"
    using sr [of 2 "thrown ''transaction was replaced''"]
    by (simp add: n congested_outcome thrown_text one_two)
  have s3: "waits (attempt_effects 3 (fst ?S)) = [12000]
      \<and> snd ?S = Inr (failure ''transaction dropped'')"
    using sr [of 3 "thrown ''transaction dropped''"]
    by (simp add: n congested_outcome thrown_text one_two)
  have u2: "waits (attempt_effects 2 (fst ?U)) = [6000]"
    using ur [of 2 "thrown ''transaction was replaced''"]
    by (simp add: nu flaky_outcome thrown_text one_two)
  have u3: "waits (attempt_effects 3 (fst ?U)) = []
      \<and> snd ?U = Inr (failure ''User rejected the request.'')"
    using uf [of 3 "thrown ''User rejected the request.''"]
    by (simp add: nu flaky_outcome thrown_text)
  from n w s1 s2 s3 nu u2 u3 show ?thesis by (intro conjI) simp_all
qed

lemma slow_loop:
  "nonce_requests (fst (submit_loop demo_ctx f d w slow_env 3 1 [] 3000)) = 3"
  "waits (fst (submit_loop demo_ctx f d w slow_env 3 1 [] 3000)) = []"
  "snd (submit_loop demo_ctx f d w slow_env 3 1 [] 3000) = failure ''Transaction not confirmed in time''"
proof -
  have o: "attempt_outcome demo_ctx (slow_env k) = NotConfirmed" for k
    by (simp add: attempt_outcome_def run_attempt_def getFreshNonce_def estimateGasWithBuffer_def
        demo_connected slow_env_def quiet_attempt_def)
  show "nonce_requests (fst (submit_loop demo_ctx f d w slow_env 3 1 [] 3000)) = 3"
    "waits (fst (submit_loop demo_ctx f d w slow_env 3 1 [] 3000)) = []"
    "snd (submit_loop demo_ctx f d w slow_env 3 1 [] 3000) = failure ''Transaction not confirmed in time''"
    by (simp_all add: loop_step [of demo_ctx f d w slow_env] o
        nonce_requests_append waits_append run_attempt_waits give_up_quiet
        run_attempt_nonce_requests [OF demo_connected(1)])
qed

text \<open>
  The first attempt of this run fails, and the message it leaves holds none of the three
  words; yet two more attempts follow it, with no wait between them.
\<close>

theorem retry_policy_counterexample:
  "failure_text demo_ctx ''Stake failed'' (slow_env 1) = Some ''Transaction not confirmed in time''
   \<and> \<not> retryable ''Transaction not confirmed in time''
   \<and> nonce_requests (fst (stake decimal_lib demo_ctx demo_pool slow_env ''5'' None)) = 3
   \<and> waits (fst (stake decimal_lib demo_ctx demo_pool slow_env ''5'' None)) = []
   \<and> snd (stake decimal_lib demo_ctx demo_pool slow_env ''5'' None)
        = Inr (failure ''Transaction not confirmed in time'')"
proof -
  have "attempt_outcome demo_ctx (slow_env 1) = NotConfirmed"
    by (simp add: attempt_outcome_def run_attempt_def getFreshNonce_def estimateGasWithBuffer_def
        demo_connected slow_env_def quiet_attempt_def)
  then have "failure_text demo_ctx ''Stake failed'' (slow_env 1) = Some ''Transaction not confirmed in time''"
    by (simp add: failure_text_def)
  moreover have "\<not> retryable ''Transaction not confirmed in time''"
    by (simp add: retryable_def)
  ultimately show ?thesis
    by (simp add: demo_stake quiet slow_loop [unfolded One_nat_def])
qed

lemma run_attempt_writes_eq:
  "connected ctx \<Longrightarrow>
   writes (fst (run_attempt ctx f w ae)) =
     (case (nonce_resp ae, gasPrice_resp ae) of
        (Inr n, Inr price) \<Rightarrow>
          [\<lparr>target = chef ctx, functionName = f, args = [Big (int (pid ctx)), Big w],
            callValue = None,
            gas = Some (case gas_resp ae of
                          Inr estimated \<Rightarrow> (estimated * 180) div 100
                        | Inl _ \<Rightarrow> 500000),
            nonce = Some n, gasPrice = Some ((price * 130) div 100)\<rparr>]
      | _ \<Rightarrow> [])"
  by (simp add: run_attempt_def getFreshNonce_def estimateGasWithBuffer_def writes_append
      tx_call_def split: sum.splits prod.splits)

lemma run_attempt_estimates:
  "connected ctx \<Longrightarrow>
   estimates (fst (run_attempt ctx f w ae)) =
     (case nonce_resp ae of
        Inr _ \<Rightarrow>
          [\<lparr>target = chef ctx, functionName = f, args = [Big (int (pid ctx)), Big w],
            callValue = None, gas = None, nonce = None, gasPrice = None\<rparr>]
      | Inl _ \<Rightarrow> [])"
  by (simp add: run_attempt_def getFreshNonce_def estimateGasWithBuffer_def estimates_append
      split: sum.splits prod.splits)

lemma run_attempt_tags:
  "connected ctx \<Longrightarrow> nonce_tags (fst (run_attempt ctx f w ae)) = [Pending]"
  by (simp add: run_attempt_def getFreshNonce_def estimateGasWithBuffer_def nonce_tags_append
      split: sum.splits prod.splits)

lemma run_attempt_hd:
  "connected ctx \<Longrightarrow>
   hd (fst (run_attempt ctx f w ae) @ rest) =
     GetTransactionCount (case account ctx of Some a \<Rightarrow> a | None \<Rightarrow> []) Pending"
  by (simp add: run_attempt_def getFreshNonce_def estimateGasWithBuffer_def str_or_def
      split: sum.splits prod.splits option.splits)

text \<open>What each attempt of the loop asks of the node and submits to the wallet.\<close>

lemma loop_submission:
  fixes ctx f d w env r
  defines "L \<equiv> fst (submit_loop ctx f d w env r 1 [] 3000)"
  assumes c: "connected ctx" and k: "1 \<le> k" "k \<le> nonce_requests L"
  shows
  "hd (attempt_effects k L) =
      GetTransactionCount (case account ctx of Some a \<Rightarrow> a | None \<Rightarrow> []) Pending
   \<and> nonce_tags (attempt_effects k L) = [Pending]
   \<and> estimates (attempt_effects k L) =
       (case nonce_resp (env k) of
          Inr _ \<Rightarrow>
            [\<lparr>target = chef ctx, functionName = f, args = [Big (int (pid ctx)), Big w],
              callValue = None, gas = None, nonce = None, gasPrice = None\<rparr>]
        | Inl _ \<Rightarrow> [])
   \<and> writes (attempt_effects k L) =
       (case (nonce_resp (env k), gasPrice_resp (env k)) of
          (Inr n, Inr price) \<Rightarrow>
            [\<lparr>target = chef ctx, functionName = f, args = [Big (int (pid ctx)), Big w],
              callValue = None,
              gas = Some (case gas_resp (env k) of
                            Inr estimated \<Rightarrow> (estimated * 180) div 100
                          | Inl _ \<Rightarrow> 500000),
              nonce = Some n, gasPrice = Some ((price * 130) div 100)\<rparr>]
        | _ \<Rightarrow> [])"
proof -
  from k obtain j where j: "k = Suc j" by (cases k) simp_all
  from loop_attempt [OF c, where a = 1 and k = k and f = f and d = d and w = w and env = env
      and r = r and le = "[]" and b = 3000] k
  obtain tl where tl: "attempt_effects k L = fst (run_attempt ctx f w (env k)) @ tl"
    "writes tl = []" "estimates tl = []" "nonce_tags tl = []"
    unfolding L_def by (auto simp: j)
  show ?thesis
    unfolding tl(1)
    by (simp only: run_attempt_hd [OF c] writes_append estimates_append nonce_tags_append tl(2-4)
        run_attempt_writes_eq [OF c] run_attempt_estimates [OF c] run_attempt_tags [OF c]
        append_Nil2 simp_thms)
qed

lemma stake_reaches:
  assumes "walletClient ctx" "publicClient ctx" "account ctx = Some a" "a \<noteq> []"
    and "amount \<noteq> []" "\<not> js_le (parseFloat lib amount) (Fin 0)"
    and "poolVerified ctx \<or> snd (verifyPool ctx pe)"
    and "parseUnits lib amount 18 = Some w"
    and "\<forall>bal. lpBalance ctx = Some bal \<and> bal \<noteq> 0 \<longrightarrow> w \<le> int bal"
    and "allowance ctx = Some al" "al \<noteq> 0" "w \<le> int al"
    and "1 \<le> retries_or_default retries"
  shows "1 \<le> nonce_requests (fst (stake lib ctx pe env amount retries))"
proof (cases rule: stake_cases [of lib ctx pe env amount retries])
  case refused
  have g: "\<not> wallet_missing ctx" "\<not> invalid_amount lib amount"
    using assms(1-6) by (simp_all add: wallet_missing_def invalid_amount_def falsy_str_def)
  have p: "snd (pool_check ctx pe)" using assms(7) by (auto simp: pool_check_def)
  have o: "\<not> over_balance ctx w" using assms(9)
    by (cases "lpBalance ctx") (auto simp: over_balance_def falsy_big_def big_or_zero_def)
  have u: "\<not> under_allowance ctx w" using assms(10-12)
    by (simp add: under_allowance_def falsy_big_def big_or_zero_def)
  obtain e0 where e0: "pool_check ctx pe = (e0, True)" using p by (cases "pool_check ctx pe") simp
  have c: "connected ctx" using g(1) by (simp add: connected_def wallet_missing_def)
  have "stake lib ctx pe env amount retries =
      (e0 @ processing @ fst (submit_loop ctx ''deposit'' ''Stake failed'' w env (retries_or_default retries) 1 [] 3000),
       Inr (snd (submit_loop ctx ''deposit'' ''Stake failed'' w env (retries_or_default retries) 1 [] 3000)))"
    by (simp add: stake_def g e0 assms(8) o u split: prod.splits)
  with loop_attempts_ge [OF c assms(13), of "''deposit''" "''Stake failed''" w env "[]" 3000]
  have "1 \<le> nonce_requests (fst (stake lib ctx pe env amount retries))"
    by (simp add: nonce_requests_append)
  then show ?thesis .
next
  case (submitted w' pre)
  with loop_attempts_ge [OF submitted(1) assms(13), of "''deposit''" "''Stake failed''" w' env "[]" 3000]
  show ?thesis by (simp add: nonce_requests_append)
qed

lemma unstake_reaches:
  assumes "walletClient ctx" "publicClient ctx" "account ctx = Some a" "a \<noteq> []"
    and "amount \<noteq> []" "\<not> js_le (parseFloat lib amount) (Fin 0)"
    and "parseUnits lib amount 18 = Some w"
    and "1 \<le> retries_or_default retries"
  shows "1 \<le> nonce_requests (fst (unstake lib ctx env amount retries))"
proof -
  have g: "\<not> wallet_missing ctx" "\<not> invalid_amount lib amount"
    using assms(1-6) by (simp_all add: wallet_missing_def invalid_amount_def falsy_str_def)
  have c: "connected ctx" using g(1) by (simp add: connected_def wallet_missing_def)
  have "unstake lib ctx env amount retries =
      (processing @ fst (submit_loop ctx ''withdraw'' ''Unstake failed'' w env (retries_or_default retries) 1 [] 3000),
       Inr (snd (submit_loop ctx ''withdraw'' ''Unstake failed'' w env (retries_or_default retries) 1 [] 3000)))"
    by (simp add: unstake_def g assms(7) split: prod.splits)
  with loop_attempts_ge [OF c assms(8), of "''withdraw''" "''Unstake failed''" w env "[]" 3000]
  show ?thesis by (simp add: nonce_requests_append)
qed

text \<open>
  C6. When the wallet is connected, the amount is valid and covered by the allowance and
  the balance, and \<open>retries\<close> is at least 1, \<open>stake\<close> makes a first attempt; \<open>unstake\<close>
  does when the wallet is connected and the amount is valid. Every attempt that either
  makes opens by asking the node for the account's transaction count at the pending
  block, and asks for it once. When the count has arrived the attempt asks for the gas
  estimate of its call, and when the gas price has arrived too it submits exactly that
  call to the wallet: with the count just returned as nonce, with the estimate of this
  attempt times 180 divided by 100 in whole numbers as gas limit (500000 when the estimate
  threw), and with the node's price of this attempt times 130 divided by 100 as gas price.
\<close>

theorem submission_parameters:
  fixes lib ctx pe env amount retries
  defines "S \<equiv> fst (stake lib ctx pe env amount retries)"
    and "U \<equiv> fst (unstake lib ctx env amount retries)"
    and "r \<equiv> (case retries of None \<Rightarrow> 3 | Some n \<Rightarrow> n)"
    and "asked \<equiv> (\<lambda>f w k. case nonce_resp (env k) of
          Inr _ \<Rightarrow>
            [\<lparr>target = chef ctx, functionName = f, args = [Big (int (pid ctx)), Big w],
              callValue = None, gas = None, nonce = None, gasPrice = None\<rparr>]
        | Inl _ \<Rightarrow> [])"
    and "sent \<equiv> (\<lambda>f w k. case (nonce_resp (env k), gasPrice_resp (env k)) of
          (Inr n, Inr price) \<Rightarrow>
            [\<lparr>target = chef ctx, functionName = f, args = [Big (int (pid ctx)), Big w],
              callValue = None,
              gas = Some (case gas_resp (env k) of
                            Inr estimated \<Rightarrow> (estimated * 180) div 100
                          | Inl _ \<Rightarrow> 500000),
              nonce = Some n, gasPrice = Some ((price * 130) div 100)\<rparr>]
        | _ \<Rightarrow> [])"
  shows
  "(walletClient ctx \<and> publicClient ctx \<and> (\<exists>a. account ctx = Some a \<and> a \<noteq> [])
      \<and> amount \<noteq> [] \<and> \<not> js_le (parseFloat lib amount) (Fin 0)
      \<and> (poolVerified ctx \<or> snd (verifyPool ctx pe))
      \<and> (\<exists>w. parseUnits lib amount 18 = Some w
            \<and> (\<forall>bal. lpBalance ctx = Some bal \<and> bal \<noteq> 0 \<longrightarrow> w \<le> int bal)
            \<and> (\<exists>al. allowance ctx = Some al \<and> al \<noteq> 0 \<and> w \<le> int al))
      \<and> 1 \<le> r
     \<longrightarrow> 1 \<le> nonce_requests S)
   \<and> (\<forall>k. 1 \<le> k \<and> k \<le> nonce_requests S \<longrightarrow>
        hd (attempt_effects k S) =
          GetTransactionCount (case account ctx of Some a \<Rightarrow> a | None \<Rightarrow> []) Pending
        \<and> nonce_tags (attempt_effects k S) = [Pending]
        \<and> (\<exists>w. parseUnits lib amount 18 = Some w
              \<and> estimates (attempt_effects k S) = asked ''deposit'' w k
              \<and> writes (attempt_effects k S) = sent ''deposit'' w k))
   \<and> (walletClient ctx \<and> publicClient ctx \<and> (\<exists>a. account ctx = Some a \<and> a \<noteq> [])
      \<and> amount \<noteq> [] \<and> \<not> js_le (parseFloat lib amount) (Fin 0)
      \<and> (\<exists>w. parseUnits lib amount 18 = Some w)
      \<and> 1 \<le> r
     \<longrightarrow> 1 \<le> nonce_requests U)
   \<and> (\<forall>k. 1 \<le> k \<and> k \<le> nonce_requests U \<longrightarrow>
        hd (attempt_effects k U) =
          GetTransactionCount (case account ctx of Some a \<Rightarrow> a | None \<Rightarrow> []) Pending
        \<and> nonce_tags (attempt_effects k U) = [Pending]
        \<and> (\<exists>w. parseUnits lib amount 18 = Some w
              \<and> estimates (attempt_effects k U) = asked ''withdraw'' w k
              \<and> writes (attempt_effects k U) = sent ''withdraw'' w k))"
proof -
  have rd: "r = retries_or_default retries" by (simp add: r_def retries_or_default_def)
  have 1: "1 \<le> nonce_requests S"
    if "walletClient ctx \<and> publicClient ctx \<and> (\<exists>a. account ctx = Some a \<and> a \<noteq> [])
      \<and> amount \<noteq> [] \<and> \<not> js_le (parseFloat lib amount) (Fin 0)
      \<and> (poolVerified ctx \<or> snd (verifyPool ctx pe))
      \<and> (\<exists>w. parseUnits lib amount 18 = Some w
            \<and> (\<forall>bal. lpBalance ctx = Some bal \<and> bal \<noteq> 0 \<longrightarrow> w \<le> int bal)
            \<and> (\<exists>al. allowance ctx = Some al \<and> al \<noteq> 0 \<and> w \<le> int al))
      \<and> 1 \<le> r"
    using that unfolding S_def rd by (elim conjE exE) (rule stake_reaches)
  have 2: "hd (attempt_effects k S) =
          GetTransactionCount (case account ctx of Some a \<Rightarrow> a | None \<Rightarrow> []) Pending
        \<and> nonce_tags (attempt_effects k S) = [Pending]
        \<and> (\<exists>w. parseUnits lib amount 18 = Some w
              \<and> estimates (attempt_effects k S) = asked ''deposit'' w k
              \<and> writes (attempt_effects k S) = sent ''deposit'' w k)"
    if k: "1 \<le> k \<and> k \<le> nonce_requests S" for k
  proof (cases rule: stake_cases [of lib ctx pe env amount retries])
    case refused
    with k have False by (auto simp: S_def)
    then show ?thesis ..
  next
    case (submitted w pre)
    let ?L = "fst (submit_loop ctx ''deposit'' ''Stake failed'' w env r 1 [] 3000)"
    have n: "nonce_requests S = nonce_requests ?L"
      and ae: "attempt_effects k S = attempt_effects k ?L"
      using submitted by (simp_all add: S_def rd nonce_requests_append attempt_effects_skip)
    from k have k': "1 \<le> k" "k \<le> nonce_requests ?L" by (simp_all add: n)
    from loop_submission [where f = "''deposit''" and d = "''Stake failed''" and w = w and env = env
        and r = r, OF submitted(1) k'] submitted(2)
    show ?thesis unfolding ae asked_def sent_def by simp
  qed
  have 3: "1 \<le> nonce_requests U"
    if "walletClient ctx \<and> publicClient ctx \<and> (\<exists>a. account ctx = Some a \<and> a \<noteq> [])
      \<and> amount \<noteq> [] \<and> \<not> js_le (parseFloat lib amount) (Fin 0)
      \<and> (\<exists>w. parseUnits lib amount 18 = Some w)
      \<and> 1 \<le> r"
    using that unfolding U_def rd by (elim conjE exE) (rule unstake_reaches)
  have 4: "hd (attempt_effects k U) =
          GetTransactionCount (case account ctx of Some a \<Rightarrow> a | None \<Rightarrow> []) Pending
        \<and> nonce_tags (attempt_effects k U) = [Pending]
        \<and> (\<exists>w. parseUnits lib amount 18 = Some w
              \<and> estimates (attempt_effects k U) = asked ''withdraw'' w k
              \<and> writes (attempt_effects k U) = sent ''withdraw'' w k)"
    if k: "1 \<le> k \<and> k \<le> nonce_requests U" for k
  proof (cases rule: unstake_cases [of lib ctx env amount retries])
    case refused
    with k have False by (auto simp: U_def)
    then show ?thesis ..
  next
    case (submitted w pre)
    let ?L = "fst (submit_loop ctx ''withdraw'' ''Unstake failed'' w env r 1 [] 3000)"
    have n: "nonce_requests U = nonce_requests ?L"
      and ae: "attempt_effects k U = attempt_effects k ?L"
      using submitted by (simp_all add: U_def rd nonce_requests_append attempt_effects_skip)
    from k have k': "1 \<le> k" "k \<le> nonce_requests ?L" by (simp_all add: n)
    from loop_submission [where f = "''withdraw''" and d = "''Unstake failed''" and w = w and env = env
        and r = r, OF submitted(1) k'] submitted(2)
    show ?thesis unfolding ae asked_def sent_def by simp
  qed
  from 1 2 3 4 show ?thesis by blast
qed


lemma flaky_answers:
  "nonce_resp (flaky_env 1) = Inr 7" "gasPrice_resp (flaky_env 1) = Inr 50"
  "gas_resp (flaky_env 1) = Inr 100000"
  "nonce_resp (flaky_env 2) = Inr 8" "gasPrice_resp (flaky_env 2) = Inr 50"
  "gas_resp (flaky_env 2) = Inl (thrown ''execution reverted'')"
  "nonce_resp (flaky_env 3) = Inr 9" "gasPrice_resp (flaky_env 3) = Inr 50"
  "gas_resp (flaky_env 3) = Inr 100000"
  by (simp_all add: flaky_env_def quiet_attempt_def)

lemma demo_ctx_fields:
  "walletClient demo_ctx" "publicClient demo_ctx"
  "account demo_ctx = Some ''0x00000000000000000000000000000000000000aa''"
  "chef demo_ctx = ''0x1CF67a6Ac3E049E78E6BC22642126C6AB8511d03''" "pid demo_ctx = 0"
  "poolVerified demo_ctx"
  "allowance demo_ctx = Some (10 ^ 30)" "lpBalance demo_ctx = Some (10 ^ 20)"
  by (simp_all add: demo_ctx_def)

theorem submission_parameters_witness:
  "1 \<le> nonce_requests (fst (stake decimal_lib demo_ctx demo_pool flaky_env ''5'' None))
   \<and> nonce_requests (fst (stake decimal_lib demo_ctx demo_pool flaky_env ''5'' None)) = 3
   \<and> hd (attempt_effects 2 (fst (stake decimal_lib demo_ctx demo_pool flaky_env ''5'' None)))
       = GetTransactionCount ''0x00000000000000000000000000000000000000aa'' Pending
   \<and> nonce_tags (attempt_effects 2 (fst (stake decimal_lib demo_ctx demo_pool flaky_env ''5'' None)))
       = [Pending]
   \<and> writes (attempt_effects 1 (fst (stake decimal_lib demo_ctx demo_pool flaky_env ''5'' None)))
       = [\<lparr>target = ''0x1CF67a6Ac3E049E78E6BC22642126C6AB8511d03'', functionName = ''deposit'',
           args = [Big 0, Big 5000000000000000000], callValue = None,
           gas = Some 180000, nonce = Some 7, gasPrice = Some 65\<rparr>]
   \<and> estimates (attempt_effects 2 (fst (stake decimal_lib demo_ctx demo_pool flaky_env ''5'' None)))
       = [\<lparr>target = ''0x1CF67a6Ac3E049E78E6BC22642126C6AB8511d03'', functionName = ''deposit'',
           args = [Big 0, Big 5000000000000000000], callValue = None,
           gas = None, nonce = None, gasPrice = None\<rparr>]
   \<and> writes (attempt_effects 2 (fst (stake decimal_lib demo_ctx demo_pool flaky_env ''5'' None)))
       = [\<lparr>target = ''0x1CF67a6Ac3E049E78E6BC22642126C6AB8511d03'', functionName = ''deposit'',
           args = [Big 0, Big 5000000000000000000], callValue = None,
           gas = Some 500000, nonce = Some 8, gasPrice = Some 65\<rparr>]
   \<and> 1 \<le> nonce_requests (fst (unstake decimal_lib demo_ctx flaky_env ''5'' None))
   \<and> nonce_requests (fst (unstake decimal_lib demo_ctx flaky_env ''5'' None)) = 3
   \<and> hd (attempt_effects 3 (fst (unstake decimal_lib demo_ctx flaky_env ''5'' None)))
       = GetTransactionCount ''0x00000000000000000000000000000000000000aa'' Pending
   \<and> nonce_tags (attempt_effects 3 (fst (unstake decimal_lib demo_ctx flaky_env ''5'' None)))
       = [Pending]
   \<and> writes (attempt_effects 3 (fst (unstake decimal_lib demo_ctx flaky_env ''5'' None)))
       = [\<lparr>target = ''0x1CF67a6Ac3E049E78E6BC22642126C6AB8511d03'', functionName = ''withdraw'',
           args = [Big 0, Big 5000000000000000000], callValue = None,
           gas = Some 180000, nonce = Some 9, gasPrice = Some 65\<rparr>]"
proof -
  let ?S = "fst (stake decimal_lib demo_ctx demo_pool flaky_env ''5'' None)"
  let ?U = "fst (unstake decimal_lib demo_ctx flaky_env ''5'' None)"
  have n: "nonce_requests ?S = 3"
    by (simp add: demo_stake quiet flaky_loop [unfolded One_nat_def])
  have nu: "nonce_requests ?U = 3"
    by (simp add: demo_unstake quiet flaky_loop [unfolded One_nat_def])
  have v: "\<not> js_le (parseFloat decimal_lib ''5'') (Fin 0)"
    using five_valid(1) by (simp add: invalid_amount_def)
  note t = submission_parameters [where lib = decimal_lib and ctx = demo_ctx and pe = demo_pool
      and env = flaky_env and amount = "''5''" and retries = None]
  note live = t [THEN conjunct1, rule_format]
  note each = t [THEN conjunct2, THEN conjunct1, rule_format]
  note live_u = t [THEN conjunct2, THEN conjunct2, THEN conjunct1, rule_format]
  note each_u = t [THEN conjunct2, THEN conjunct2, THEN conjunct2, rule_format]
  have l: "1 \<le> nonce_requests ?S"
    by (rule live) (simp add: demo_ctx_fields v parse_five)
  have lu: "1 \<le> nonce_requests ?U"
    by (rule live_u) (simp add: demo_ctx_fields v parse_five)
  have s1: "writes (attempt_effects 1 ?S)
       = [\<lparr>target = ''0x1CF67a6Ac3E049E78E6BC22642126C6AB8511d03'', functionName = ''deposit'',
           args = [Big 0, Big 5000000000000000000], callValue = None,
           gas = Some 180000, nonce = Some 7, gasPrice = Some 65\<rparr>]"
    using each [of 1]
    by (simp add: n parse_five flaky_answers flaky_answers [unfolded One_nat_def] demo_ctx_fields)
  have s2: "hd (attempt_effects 2 ?S)
       = GetTransactionCount ''0x00000000000000000000000000000000000000aa'' Pending
     \<and> nonce_tags (attempt_effects 2 ?S) = [Pending]
     \<and> estimates (attempt_effects 2 ?S)
       = [\<lparr>target = ''0x1CF67a6Ac3E049E78E6BC22642126C6AB8511d03'', functionName = ''deposit'',
           args = [Big 0, Big 5000000000000000000], callValue = None,
           gas = None, nonce = None, gasPrice = None\<rparr>]
     \<and> writes (attempt_effects 2 ?S)
       = [\<lparr>target = ''0x1CF67a6Ac3E049E78E6BC22642126C6AB8511d03'', functionName = ''deposit'',
           args = [Big 0, Big 5000000000000000000], callValue = None,
           gas = Some 500000, nonce = Some 8, gasPrice = Some 65\<rparr>]"
    using each [of 2] by (simp add: n parse_five flaky_answers demo_ctx_fields)
  have u3: "hd (attempt_effects 3 ?U)
       = GetTransactionCount ''0x00000000000000000000000000000000000000aa'' Pending
     \<and> nonce_tags (attempt_effects 3 ?U) = [Pending]
     \<and> writes (attempt_effects 3 ?U)
       = [\<lparr>target = ''0x1CF67a6Ac3E049E78E6BC22642126C6AB8511d03'', functionName = ''withdraw'',
           args = [Big 0, Big 5000000000000000000], callValue = None,
           gas = Some 180000, nonce = Some 9, gasPrice = Some 65\<rparr>]"
    using each_u [of 3] by (simp add: nu parse_five flaky_answers demo_ctx_fields)
  from l n s1 s2 lu nu u3 show ?thesis by (intro conjI) simp_all
qed

text \<open>
  C7. With a zero LP balance and an allowance that covers the amount, stake submits the
  deposit: the balance check reads the bigint \<open>0n\<close> as no balance at all.
\<close>

theorem stake_zero_balance_submits:
  "lpBalance (demo_ctx\<lparr>lpBalance := Some 0\<rparr>) = Some 0
   \<and> parseUnits decimal_lib ''1'' 18 = Some 1000000000000000000
   \<and> writes (fst (stake decimal_lib (demo_ctx\<lparr>lpBalance := Some 0\<rparr>) demo_pool (\<lambda>k. quiet_attempt) ''1'' None))
       = [tx_call (demo_ctx\<lparr>lpBalance := Some 0\<rparr>) ''deposit'' 1000000000000000000 180000 7 50]
   \<and> snd (stake decimal_lib (demo_ctx\<lparr>lpBalance := Some 0\<rparr>) demo_pool (\<lambda>k. quiet_attempt) ''1'' None)
       = Inr \<lparr>success = True, hash = Some ''0xfeed'', error = None\<rparr>"
proof -
  let ?ctx = "demo_ctx\<lparr>lpBalance := Some 0\<rparr>"
  have c: "connected ?ctx" "\<not> wallet_missing ?ctx"
    by (simp_all add: connected_def wallet_missing_def demo_ctx_def falsy_str_def)
  have o: "attempt_outcome ?ctx quiet_attempt = Confirmed ''0xfeed''"
    by (simp add: attempt_outcome_def run_attempt_def getFreshNonce_def estimateGasWithBuffer_def
        c quiet_attempt_def)
  have ra: "writes (fst (run_attempt ?ctx f w quiet_attempt)) = [tx_call ?ctx f w 180000 7 50]" for f w
    by (simp add: run_attempt_def getFreshNonce_def estimateGasWithBuffer_def c quiet_attempt_def)
  have "stake decimal_lib ?ctx demo_pool (\<lambda>k. quiet_attempt) ''1'' None =
     (processing @ fst (submit_loop ?ctx ''deposit'' ''Stake failed'' 1000000000000000000 (\<lambda>k. quiet_attempt) 3 1 [] 3000),
      Inr (snd (submit_loop ?ctx ''deposit'' ''Stake failed'' 1000000000000000000 (\<lambda>k. quiet_attempt) 3 1 [] 3000)))"
    by (simp add: stake_def c five_valid parse_one pool_check_def over_balance_def
        under_allowance_def falsy_big_def big_or_zero_def retries_or_default_def
        split: prod.splits)
       (simp add: demo_ctx_def)
  then show ?thesis
    by (simp add: parse_one quiet loop_confirmed [of _ _ _ _ "''0xfeed''"] o ra writes_append)
qed

lemma stake_allowance_gate:
  assumes "parseUnits lib amount 18 = Some w" "under_allowance ctx w \<or> over_balance ctx w"
  shows "writes (fst (stake lib ctx pe env amount retries)) = []
    \<and> hashes (fst (stake lib ctx pe env amount retries)) = []
    \<and> (\<forall>r. snd (stake lib ctx pe env amount retries) = Inr r \<longrightarrow> \<not> success r \<and> hash r = None)"
proof (cases rule: stake_cases [of lib ctx pe env amount retries])
  case refused
  then show ?thesis by simp
next
  case (submitted w' pre)
  with assms show ?thesis by simp
qed

section \<open>The approval predicates\<close>

text \<open>
  C10. \<open>needsApproval\<close> of the stake hook fails safe. It answers \<open>True\<close> whenever the amount
  is the empty string, the allowance has not arrived, or \<open>parseUnits\<close> throws on the
  amount; and it answers \<open>False\<close> only when an allowance has arrived, the amount has been
  converted to base units, and the allowance is at least that many units.
\<close>

theorem needsApproval_fails_safe:
  "(amount = [] \<or> allowance ctx = None \<or> parseUnits lib amount 18 = None
      \<longrightarrow> needsApproval lib ctx amount)
   \<and> (\<not> needsApproval lib ctx amount
      \<longrightarrow> (\<exists>a w. allowance ctx = Some a \<and> parseUnits lib amount 18 = Some w \<and> w \<le> int a))"
  by (auto simp: needsApproval_def falsy_big_def big_or_zero_def split: option.splits)

theorem needsApproval_fails_safe_witness:
  "needsApproval decimal_lib (demo_ctx\<lparr>allowance := None\<rparr>) ''5''
   \<and> needsApproval decimal_lib demo_ctx ''five''
   \<and> \<not> needsApproval decimal_lib demo_ctx ''5''
   \<and> (\<exists>a w. allowance demo_ctx = Some a \<and> parseUnits decimal_lib ''5'' 18 = Some w \<and> w \<le> int a)"
proof -
  have n: "\<not> needsApproval decimal_lib demo_ctx ''5''"
    by (simp add: needsApproval_def falsy_big_def big_or_zero_def demo_ctx_def parse_five)
  have w: "parseUnits decimal_lib ''five'' 18 = None"
    by (simp add: decimal_lib_def whole_literal_def digit_of_def)
  show ?thesis
    using needsApproval_fails_safe [of "''5''" "demo_ctx\<lparr>allowance := None\<rparr>" decimal_lib]
      needsApproval_fails_safe [of "''five''" demo_ctx decimal_lib]
      needsApproval_fails_safe [of "''5''" demo_ctx decimal_lib] n w
    by simp
qed

section \<open>The approval gate\<close>

text \<open>
  C5. The flag \<open>needsApproval\<close> of \<open>useApproval\<close> is true exactly when the token address is
  given and is not the native address (the zero address), the amount is a non-empty string
  that \<open>parseFloat\<close> reads as a positive number, and the allowance on chain (0 while it
  has not arrived) is below the amount in base units: \<open>parseUnits\<close> of the amount at the
  decimals of the token, 18 when they are left out. The hook returns the flag, with the
  allowance, unless \<open>parseUnits\<close> throws on a positive amount.
\<close>

theorem useApproval_needsApproval:
  "(useApproval lib tokenAddress amount decs allowanceData
      = Inr (case allowanceData of None \<Rightarrow> 0 | Some a \<Rightarrow> a, True)
      \<longleftrightarrow>
      (\<exists>t. tokenAddress = Some t \<and> t \<noteq> []
           \<and> t \<noteq> ''0x0000000000000000000000000000000000000000'')
      \<and> amount \<noteq> [] \<and> js_gt (parseFloat lib amount) (Fin 0)
      \<and> (\<exists>w. parseUnits lib amount (case decs of None \<Rightarrow> 18 | Some d \<Rightarrow> d) = Some w
             \<and> int (case allowanceData of None \<Rightarrow> 0 | Some a \<Rightarrow> a) < w))
   \<and> ((\<exists>b. useApproval lib tokenAddress amount decs allowanceData
             = Inr (case allowanceData of None \<Rightarrow> 0 | Some a \<Rightarrow> a, b))
      \<longleftrightarrow>
      \<not> (amount \<noteq> [] \<and> js_gt (parseFloat lib amount) (Fin 0)
         \<and> parseUnits lib amount (case decs of None \<Rightarrow> 18 | Some d \<Rightarrow> d) = None))
   \<and> ((\<exists>e. useApproval lib tokenAddress amount decs allowanceData = Inl e)
      \<longleftrightarrow>
      amount \<noteq> [] \<and> js_gt (parseFloat lib amount) (Fin 0)
      \<and> parseUnits lib amount (case decs of None \<Rightarrow> 18 | Some d \<Rightarrow> d) = None)"
proof -
  have n: "isNativeAddress tokenAddress \<longleftrightarrow>
      \<not> (\<exists>t. tokenAddress = Some t \<and> t \<noteq> [] \<and> t \<noteq> ''0x0000000000000000000000000000000000000000'')"
    by (cases tokenAddress) (auto simp: isNativeAddress_def NATIVE_ADDRESS_def falsy_str_def)
  have d: "decimals_or_default decs = (case decs of None \<Rightarrow> 18 | Some d \<Rightarrow> d)"
    by (simp add: decimals_or_default_def)
  have z: "big_or_zero allowanceData = (case allowanceData of None \<Rightarrow> 0 | Some a \<Rightarrow> a)"
    by (simp add: big_or_zero_def)
  have "(useApproval lib tokenAddress amount decs allowanceData = Inr (big_or_zero allowanceData, True)
      \<longleftrightarrow>
      \<not> isNativeAddress tokenAddress \<and> amount \<noteq> [] \<and> js_gt (parseFloat lib amount) (Fin 0)
      \<and> (\<exists>w. parseUnits lib amount (decimals_or_default decs) = Some w
             \<and> int (big_or_zero allowanceData) < w))
   \<and> ((\<exists>b. useApproval lib tokenAddress amount decs allowanceData = Inr (big_or_zero allowanceData, b))
      \<longleftrightarrow>
      \<not> (amount \<noteq> [] \<and> js_gt (parseFloat lib amount) (Fin 0)
         \<and> parseUnits lib amount (decimals_or_default decs) = None))
   \<and> ((\<exists>e. useApproval lib tokenAddress amount decs allowanceData = Inl e)
      \<longleftrightarrow>
      amount \<noteq> [] \<and> js_gt (parseFloat lib amount) (Fin 0)
      \<and> parseUnits lib amount (decimals_or_default decs) = None)"
    by (cases "parseUnits lib amount (decimals_or_default decs)")
       (auto simp: useApproval_def)
  then show ?thesis
    unfolding d z n by (simp only: not_not)
qed

lemma five_positive: "js_gt (parseFloat decimal_lib ''5'') (Fin 0)"
  by (simp add: js_gt_def decimal_lib_def whole_literal_def digit_of_def)

lemma parse_five_six: "parseUnits decimal_lib ''5'' 6 = Some 5000000"
  by (simp add: decimal_lib_def whole_literal_def digit_of_def)

theorem useApproval_needsApproval_witness:
  "useApproval decimal_lib (Some (address QUICK_TOKEN)) ''5'' None (Some 1000000000000000000)
     = Inr (1000000000000000000, True)
   \<and> useApproval decimal_lib (Some (address QUICK_TOKEN)) ''5'' None None = Inr (0, True)
   \<and> useApproval decimal_lib (Some (address QUICK_TOKEN)) ''5'' None (Some 5000000000000000000)
     = Inr (5000000000000000000, False)
   \<and> useApproval decimal_lib (Some (address MON_TOKEN)) ''5'' None None = Inr (0, False)
   \<and> useApproval decimal_lib None ''5'' None None = Inr (0, False)
   \<and> useApproval decimal_lib (Some (address USDC_TOKEN)) ''5'' (Some (decimals USDC_TOKEN)) (Some 4999999)
     = Inr (4999999, True)
   \<and> useApproval decimal_lib (Some (address USDC_TOKEN)) ''5'' (Some (decimals USDC_TOKEN)) (Some 5000000)
     = Inr (5000000, False)"
proof -
  have a: "address QUICK_TOKEN = ''0x6d42eFC8B2EC16cC61B47BfC2ABb38D570Faabb5''"
    "address MON_TOKEN = ''0x0000000000000000000000000000000000000000''"
    "address USDC_TOKEN = ''0x0000000000000000000000000000000000000001''"
    "decimals USDC_TOKEN = 6"
    by (simp_all add: QUICK_TOKEN_def MON_TOKEN_def USDC_TOKEN_def NATIVE_ADDRESS_def)
  note t = useApproval_needsApproval [where lib = decimal_lib and amount = "''5''"]
  note yes = t [THEN conjunct1, THEN iffD2]
  note ret = t [THEN conjunct2, THEN conjunct1, THEN iffD2]
  note no = t [THEN conjunct1, THEN iffD1]
  have 1: "useApproval decimal_lib (Some (address QUICK_TOKEN)) ''5'' None (Some 1000000000000000000)
     = Inr (1000000000000000000, True)"
    using yes [of "Some (address QUICK_TOKEN)" None "Some 1000000000000000000"]
    by (simp add: a five_positive parse_five)
  have 2: "useApproval decimal_lib (Some (address QUICK_TOKEN)) ''5'' None None = Inr (0, True)"
    using yes [of "Some (address QUICK_TOKEN)" None None]
    by (simp add: a five_positive parse_five)
  have 6: "useApproval decimal_lib (Some (address USDC_TOKEN)) ''5'' (Some (decimals USDC_TOKEN)) (Some 4999999)
     = Inr (4999999, True)"
    using yes [of "Some (address USDC_TOKEN)" "Some (decimals USDC_TOKEN)" "Some 4999999"]
    by (simp add: a five_positive parse_five_six)
  have f: "useApproval decimal_lib ta ''5'' ds al = Inr (case al of None \<Rightarrow> 0 | Some a \<Rightarrow> a, False)"
    if "\<not> ((\<exists>t. ta = Some t \<and> t \<noteq> [] \<and> t \<noteq> ''0x0000000000000000000000000000000000000000'')
      \<and> ''5'' \<noteq> [] \<and> js_gt (parseFloat decimal_lib ''5'') (Fin 0)
      \<and> (\<exists>w. parseUnits decimal_lib ''5'' (case ds of None \<Rightarrow> 18 | Some d \<Rightarrow> d) = Some w
             \<and> int (case al of None \<Rightarrow> 0 | Some a \<Rightarrow> a) < w))"
      and "parseUnits decimal_lib ''5'' (case ds of None \<Rightarrow> 18 | Some d \<Rightarrow> d) \<noteq> None"
    for ta ds al
  proof -
    from ret [of ds ta al] that(2)
    obtain b where b: "useApproval decimal_lib ta ''5'' ds al = Inr (case al of None \<Rightarrow> 0 | Some a \<Rightarrow> a, b)"
      by blast
    with no [of ta ds al] that(1) have "\<not> b" by auto
    with b show ?thesis by simp
  qed
  have 3: "useApproval decimal_lib (Some (address QUICK_TOKEN)) ''5'' None (Some 5000000000000000000)
     = Inr (5000000000000000000, False)"
    using f [of "Some (address QUICK_TOKEN)" None "Some 5000000000000000000"]
    by (simp add: a parse_five)
  have 4: "useApproval decimal_lib (Some (address MON_TOKEN)) ''5'' None None = Inr (0, False)"
    using f [of "Some (address MON_TOKEN)" None None] by (simp add: a parse_five)
  have 5: "useApproval decimal_lib None ''5'' None None = Inr (0, False)"
    using f [of None None None] by (simp add: parse_five)
  have 7: "useApproval decimal_lib (Some (address USDC_TOKEN)) ''5'' (Some (decimals USDC_TOKEN)) (Some 5000000)
     = Inr (5000000, False)"
    using f [of "Some (address USDC_TOKEN)" "Some (decimals USDC_TOKEN)" "Some 5000000"]
    by (simp add: a parse_five_six)
  from 1 2 3 4 5 6 7 show ?thesis by (intro conjI)
qed

section \<open>The order of addresses\<close>

lemma str_lt_irrefl: "\<not> str_lt s s"
  by (induction s) simp_all

lemma str_lt_asym: "str_lt s t \<Longrightarrow> \<not> str_lt t s"
  by (induction s t rule: str_lt.induct) auto

lemma str_lt_total: "s \<noteq> t \<Longrightarrow> str_lt s t \<or> str_lt t s"
proof (induction s t rule: str_lt.induct)
  case (4 x xs y ys)
  then show ?case
    by (cases "(of_char x :: nat) < of_char y"; cases "(of_char y :: nat) < of_char x")
       (auto simp: not_less dest: antisym)
qed simp_all

lemma str_lt_trans: "str_lt s t \<Longrightarrow> str_lt t u \<Longrightarrow> str_lt s u"
proof (induction s t arbitrary: u rule: str_lt.induct)
  case (4 x xs y ys)
  then show ?case by (cases u) auto
qed (auto elim: str_lt.elims)

lemma sort2_first: "a \<noteq> b \<Longrightarrow> (a = fst (sort2 a b)) = str_lt a b"
  using str_lt_asym [of b a] str_lt_total [of a b] by (auto simp: sort2_def)

lemma sort2_sorted:
  "a \<noteq> b \<Longrightarrow> sort2 a b = (if str_lt a b then (a, b) else (b, a))"
  using str_lt_asym [of b a] str_lt_total [of a b] by (auto simp: sort2_def)

section \<open>Numbers\<close>

lemma js_gt_zero_cases:
  "js_gt x (Fin 0) \<longleftrightarrow> x = PosInf \<or> (\<exists>q. x = Fin q \<and> 0 < q)"
  by (cases x) (simp_all add: js_gt_def)

lemma positive_not_le: "js_gt x (Fin 0) \<Longrightarrow> \<not> js_le x (Fin 0)"
  by (cases x) (auto simp: js_gt_def js_le_def)


lemma zero_not_positive: "js_eq x (Fin 0) \<Longrightarrow> \<not> js_gt x (Fin 0)"
  by (cases x) (auto simp: js_gt_def)

lemma num_or_zero_positive: "js_gt (num_or_zero x) (Fin 0) \<longleftrightarrow> js_gt x (Fin 0)"
  by (cases x) (auto simp: js_gt_def num_or_zero_def)


lemma str_lt_lexord:
  "str_lt s t \<longleftrightarrow> (s, t) \<in> lexord {(x, y). (of_char x :: nat) < of_char y}"
  by (induction s t rule: str_lt.induct) simp_all

section \<open>The reserve fetcher\<close>

text \<open>
  C3. For two tokens with different effective addresses (the lowercased address, WMON's
  for the native token), \<open>fetchReserves\<close> asks the indexer for the pair whose \<open>token0\<close> is
  the smaller address in the lexicographic order of code units and whose \<open>token1\<close> is the
  other. \<open>isTokenAFirst\<close> holds exactly when token A's address is the smaller one, so
  once the pair has arrived \<open>reserveA\<close> is \<open>reserve0\<close> in that case and \<open>reserve1\<close>
  otherwise, and \<open>reserveB\<close> the other reserve. The ratio the hook then derives is the
  quotient of the number read from that reserve B by the number read from that reserve A
  (a text that does not read as a number counting as 0) when the latter is positive, and
  1 otherwise, so also when it is zero; the reverse ratio likewise with the two reserves
  exchanged. When the indexer has no such pair both reserves are the text \<open>0\<close> and both
  ratios are 1 (the runtime reading the text \<open>0\<close> as zero).
\<close>

theorem pool_ordering_and_ratio:
  fixes a b :: token and st :: ratio_state and resp :: fetch_resp and lib :: js_lib
  defines "A \<equiv> getActualAddress a" and "B \<equiv> getActualAddress b"
  defines "st' \<equiv> snd (fetchReserves st (Some a) (Some b) resp)"
  defines "num \<equiv> (\<lambda>s. if parseFloat lib s = NaN \<or> parseFloat lib s = Fin 0 then Fin 0
                        else parseFloat lib s)"
  assumes distinct: "A \<noteq> B"
  shows
  "A = (if address a = NATIVE_ADDRESS \<or> isNative a = Some True
        then toLowerCase WMON else toLowerCase (address a))
   \<and> fst (fetchReserves st (Some a) (Some b) resp) = Some (if str_lt A B then (A, B) else (B, A))
   \<and> (str_lt A B \<or> str_lt B A)
   \<and> (\<forall>s t. str_lt s t \<longleftrightarrow> (s, t) \<in> lexord {(x, y). (of_char x :: nat) < of_char y})
   \<and> isTokenAFirst st' = str_lt A B
   \<and> (\<forall>p. resp = Pairs (Some p) \<longrightarrow>
         reserveA st' = (if str_lt A B then reserve0 p else reserve1 p)
         \<and> reserveB st' = (if str_lt A B then reserve1 p else reserve0 p)
         \<and> ratio lib st' =
             (if js_gt (num (if str_lt A B then reserve0 p else reserve1 p)) (Fin 0)
              then fdiv lib (num (if str_lt A B then reserve1 p else reserve0 p))
                            (num (if str_lt A B then reserve0 p else reserve1 p))
              else Fin 1)
         \<and> reverseRatio lib st' =
             (if js_gt (num (if str_lt A B then reserve1 p else reserve0 p)) (Fin 0)
              then fdiv lib (num (if str_lt A B then reserve0 p else reserve1 p))
                            (num (if str_lt A B then reserve1 p else reserve0 p))
              else Fin 1)
         \<and> (js_eq (num (if str_lt A B then reserve0 p else reserve1 p)) (Fin 0)
              \<longrightarrow> ratio lib st' = Fin 1)
         \<and> (js_eq (num (if str_lt A B then reserve1 p else reserve0 p)) (Fin 0)
              \<longrightarrow> reverseRatio lib st' = Fin 1))
   \<and> (resp = Pairs None \<and> parseFloat lib ''0'' = Fin 0 \<longrightarrow>
         \<not> poolExists st' \<and> reserveA st' = ''0'' \<and> reserveB st' = ''0''
         \<and> ratio lib st' = Fin 1 \<and> reverseRatio lib st' = Fin 1)"
proof -
  have 1: "A = (if address a = NATIVE_ADDRESS \<or> isNative a = Some True
        then toLowerCase WMON else toLowerCase (address a))"
    by (simp add: A_def getActualAddress_def is_native_def)
  have s2: "sort2 (getActualAddress a) (getActualAddress b) = (if str_lt A B then (A, B) else (B, A))"
    using sort2_sorted [OF distinct] by (simp add: A_def B_def)
  have d: "getActualAddress a \<noteq> getActualAddress b" using distinct by (simp add: A_def B_def)
  have 2: "fst (fetchReserves st (Some a) (Some b) resp) = Some (if str_lt A B then (A, B) else (B, A))"
    by (simp add: fetchReserves_def d s2)
  have 3: "isTokenAFirst st' = str_lt A B"
    using d
    by (cases resp)
       (simp_all add: st'_def fetchReserves_def fetch_begin_def fetch_end_def s2 A_def B_def
          split: option.splits)
  have nA: "reserveANum lib s = num (reserveA s)" and nB: "reserveBNum lib s = num (reserveB s)" for s
    by (simp_all add: reserveANum_def reserveBNum_def num_or_zero_def num_def)
  have 4: "reserveA st' = (if str_lt A B then reserve0 p else reserve1 p)
         \<and> reserveB st' = (if str_lt A B then reserve1 p else reserve0 p)"
    if "resp = Pairs (Some p)" for p
  proof -
    have "reserves st' = Some p"
      using d that
      by (simp add: st'_def fetchReserves_def fetch_begin_def fetch_end_def s2)
    with 3 show ?thesis by (simp add: reserveA_def reserveB_def)
  qed
  have 5: "ratio lib st' =
             (if js_gt (num (if str_lt A B then reserve0 p else reserve1 p)) (Fin 0)
              then fdiv lib (num (if str_lt A B then reserve1 p else reserve0 p))
                            (num (if str_lt A B then reserve0 p else reserve1 p))
              else Fin 1)
         \<and> reverseRatio lib st' =
             (if js_gt (num (if str_lt A B then reserve1 p else reserve0 p)) (Fin 0)
              then fdiv lib (num (if str_lt A B then reserve0 p else reserve1 p))
                            (num (if str_lt A B then reserve1 p else reserve0 p))
              else Fin 1)"
    if "resp = Pairs (Some p)" for p
    unfolding ratio_def reverseRatio_def nA nB
    using 4 [OF that] by (simp only:)
  have 6: "(js_eq (num (if str_lt A B then reserve0 p else reserve1 p)) (Fin 0)
              \<longrightarrow> ratio lib st' = Fin 1)
         \<and> (js_eq (num (if str_lt A B then reserve1 p else reserve0 p)) (Fin 0)
              \<longrightarrow> reverseRatio lib st' = Fin 1)"
    if "resp = Pairs (Some p)" for p
    using 5 [OF that] zero_not_positive by (simp only:) simp
  have 7: "\<not> poolExists st' \<and> reserveA st' = ''0'' \<and> reserveB st' = ''0''
         \<and> ratio lib st' = Fin 1 \<and> reverseRatio lib st' = Fin 1"
    if "resp = Pairs None" "parseFloat lib ''0'' = Fin 0"
  proof -
    have r: "reserves st' = None"
      using d that(1)
      by (simp add: st'_def fetchReserves_def fetch_begin_def fetch_end_def s2)
    then have ab: "reserveA st' = ''0''" "reserveB st' = ''0''"
      by (simp_all add: reserveA_def reserveB_def)
    have "num ''0'' = Fin 0" using that(2) by (simp add: num_def)
    with r ab show ?thesis
      by (simp add: poolExists_def ratio_def reverseRatio_def nA nB js_gt_def)
  qed
  from 1 2 3 4 5 6 7 str_lt_total [OF distinct] str_lt_lexord show ?thesis by blast
qed

section \<open>The proportional-amount calculator\<close>


text \<open>
  C4. For a non-empty amount that reads as a positive number, \<open>calculateAmountB\<close> returns
  the amount unchanged when no reserves have been fetched or reserve A is zero, and
  \<open>calculateAmountA\<close> does when no reserves have been fetched or reserve B is zero. For
  the empty string and for an amount that reads as zero or less, both return the empty
  string.
\<close>

theorem calculateAmount_new_pool:
  "(amount \<noteq> [] \<and> js_gt (parseFloat lib amount) (Fin 0)
      \<and> (reserves st = None \<or> js_eq (reserveANum lib st) (Fin 0))
     \<longrightarrow> calculateAmountB lib st amount = amount)
   \<and> (amount \<noteq> [] \<and> js_gt (parseFloat lib amount) (Fin 0)
      \<and> (reserves st = None \<or> js_eq (reserveBNum lib st) (Fin 0))
     \<longrightarrow> calculateAmountA lib st amount = amount)
   \<and> (amount = [] \<or> js_le (parseFloat lib amount) (Fin 0)
     \<longrightarrow> calculateAmountB lib st amount = [] \<and> calculateAmountA lib st amount = [])"
  using positive_not_le [of "parseFloat lib amount"]
  by (auto simp: calculateAmountB_def calculateAmountA_def)




lemma demo_numbers:
  "parseFloat decimal_lib ''2'' = Fin 2" "parseFloat decimal_lib ''3'' = Fin 3"
  "parseFloat decimal_lib ''5'' = Fin 5" "parseFloat decimal_lib ''0'' = Fin 0"
  "parseFloat decimal_lib ''100'' = Fin 100" "parseFloat decimal_lib ''300'' = Fin 300"
  by (simp_all add: decimal_lib_def whole_literal_def digit_of_def)


lemma demo_lib_ops:
  "fmul decimal_lib = exact2 (*)" "fdiv decimal_lib = exact_div"
  "toFixed decimal_lib = decimal_toFixed"
  by (simp_all add: decimal_lib_def)


theorem calculateAmount_new_pool_witness:
  "calculateAmountB decimal_lib (demo_ratio_state\<lparr>reserves := None\<rparr>) ''5'' = ''5''
   \<and> calculateAmountA decimal_lib (demo_ratio_state\<lparr>reserves := None\<rparr>) ''5'' = ''5''
   \<and> calculateAmountB decimal_lib demo_ratio_state [] = []
   \<and> calculateAmountA decimal_lib demo_ratio_state ''0'' = []"
  using calculateAmount_new_pool [of "''5''" decimal_lib "demo_ratio_state\<lparr>reserves := None\<rparr>"]
    calculateAmount_new_pool [of "[]" decimal_lib demo_ratio_state]
    calculateAmount_new_pool [of "''0''" decimal_lib demo_ratio_state]
  by (simp add: demo_numbers js_gt_def js_le_def)

lemma demo_addresses:
  "getActualAddress MON_TOKEN = ''0x3bd359c1119da7da1d913d1c4d2b7c461115433a''"
  "getActualAddress QUICK_TOKEN = ''0x6d42efc8b2ec16cc61b47bfc2abb38d570faabb5''"
  by code_simp+

theorem pool_ordering_and_ratio_witness:
  "fst (fetchReserves demo_ratio_state (Some MON_TOKEN) (Some QUICK_TOKEN) (Pairs (Some demo_reserves)))
     = Some (''0x3bd359c1119da7da1d913d1c4d2b7c461115433a'', ''0x6d42efc8b2ec16cc61b47bfc2abb38d570faabb5'')
   \<and> reserveA (snd (fetchReserves demo_ratio_state (Some MON_TOKEN) (Some QUICK_TOKEN) (Pairs (Some demo_reserves)))) = ''100''
   \<and> ratio decimal_lib (snd (fetchReserves demo_ratio_state (Some MON_TOKEN) (Some QUICK_TOKEN) (Pairs (Some demo_reserves)))) = Fin 3
   \<and> reverseRatio decimal_lib (snd (fetchReserves demo_ratio_state (Some MON_TOKEN) (Some QUICK_TOKEN) (Pairs (Some demo_reserves)))) = Fin (1 / 3)
   \<and> fst (fetchReserves demo_ratio_state (Some QUICK_TOKEN) (Some MON_TOKEN) (Pairs (Some demo_reserves)))
     = Some (''0x3bd359c1119da7da1d913d1c4d2b7c461115433a'', ''0x6d42efc8b2ec16cc61b47bfc2abb38d570faabb5'')
   \<and> reserveA (snd (fetchReserves demo_ratio_state (Some QUICK_TOKEN) (Some MON_TOKEN) (Pairs (Some demo_reserves)))) = ''300''
   \<and> ratio decimal_lib (snd (fetchReserves demo_ratio_state (Some QUICK_TOKEN) (Some MON_TOKEN) (Pairs (Some demo_reserves)))) = Fin (1 / 3)
   \<and> reverseRatio decimal_lib (snd (fetchReserves demo_ratio_state (Some QUICK_TOKEN) (Some MON_TOKEN) (Pairs (Some demo_reserves)))) = Fin 3
   \<and> ratio decimal_lib (snd (fetchReserves demo_ratio_state (Some QUICK_TOKEN) (Some MON_TOKEN) (Pairs None))) = Fin 1
   \<and> reverseRatio decimal_lib (snd (fetchReserves demo_ratio_state (Some QUICK_TOKEN) (Some MON_TOKEN) (Pairs None))) = Fin 1"
proof -
  let ?A = "''0x3bd359c1119da7da1d913d1c4d2b7c461115433a''"
  let ?B = "''0x6d42efc8b2ec16cc61b47bfc2abb38d570faabb5''"
  have lt: "str_lt ?A ?B" "\<not> str_lt ?B ?A" by simp_all
  have ne: "?A \<noteq> ?B" "?B \<noteq> ?A" by simp_all
  have r: "reserve0 demo_reserves = ''100''" "reserve1 demo_reserves = ''300''"
    by (simp_all add: demo_reserves_def)
  have z: "js_gt (Fin 100) (Fin 0)" "js_gt (Fin 300) (Fin 0)" by (simp_all add: js_gt_def)
  note t1 = pool_ordering_and_ratio [where a = MON_TOKEN and b = QUICK_TOKEN and st = demo_ratio_state
      and resp = "Pairs (Some demo_reserves)" and lib = decimal_lib,
      unfolded demo_addresses, OF ne(1)]
  note t2 = pool_ordering_and_ratio [where a = QUICK_TOKEN and b = MON_TOKEN and st = demo_ratio_state
      and resp = "Pairs (Some demo_reserves)" and lib = decimal_lib,
      unfolded demo_addresses, OF ne(2)]
  note t3 = pool_ordering_and_ratio [where a = QUICK_TOKEN and b = MON_TOKEN and st = demo_ratio_state
      and resp = "Pairs None" and lib = decimal_lib,
      unfolded demo_addresses, OF ne(2)]
  note q1 = t1 [THEN conjunct2, THEN conjunct1]
  note q2 = t2 [THEN conjunct2, THEN conjunct1]
  note p1 = t1 [THEN conjunct2, THEN conjunct2, THEN conjunct2, THEN conjunct2, THEN conjunct2,
      THEN conjunct1, rule_format, OF refl]
  note p2 = t2 [THEN conjunct2, THEN conjunct2, THEN conjunct2, THEN conjunct2, THEN conjunct2,
      THEN conjunct1, rule_format, OF refl]
  note p3 = t3 [THEN conjunct2, THEN conjunct2, THEN conjunct2, THEN conjunct2, THEN conjunct2,
      THEN conjunct2, rule_format]
  have n: "parseFloat decimal_lib ''100'' \<noteq> NaN" "parseFloat decimal_lib ''100'' \<noteq> Fin 0"
    "parseFloat decimal_lib ''300'' \<noteq> NaN" "parseFloat decimal_lib ''300'' \<noteq> Fin 0"
    by (simp_all add: demo_numbers)
  have a1: "reserveA (snd (fetchReserves demo_ratio_state (Some MON_TOKEN) (Some QUICK_TOKEN) (Pairs (Some demo_reserves)))) = ''100''"
    using p1 [THEN conjunct1] by (simp add: lt r)
  have b1: "ratio decimal_lib (snd (fetchReserves demo_ratio_state (Some MON_TOKEN) (Some QUICK_TOKEN) (Pairs (Some demo_reserves)))) = Fin 3"
    using p1 [THEN conjunct2, THEN conjunct2, THEN conjunct1]
    by (simp add: lt r n demo_numbers z demo_lib_ops)
  have c1: "reverseRatio decimal_lib (snd (fetchReserves demo_ratio_state (Some MON_TOKEN) (Some QUICK_TOKEN) (Pairs (Some demo_reserves)))) = Fin (1 / 3)"
    using p1 [THEN conjunct2, THEN conjunct2, THEN conjunct2, THEN conjunct1]
    by (simp add: lt r n demo_numbers z demo_lib_ops)
  have a2: "reserveA (snd (fetchReserves demo_ratio_state (Some QUICK_TOKEN) (Some MON_TOKEN) (Pairs (Some demo_reserves)))) = ''300''"
    using p2 [THEN conjunct1] by (simp add: lt r)
  have b2: "ratio decimal_lib (snd (fetchReserves demo_ratio_state (Some QUICK_TOKEN) (Some MON_TOKEN) (Pairs (Some demo_reserves)))) = Fin (1 / 3)"
    using p2 [THEN conjunct2, THEN conjunct2, THEN conjunct1]
    by (simp add: lt r n demo_numbers z demo_lib_ops)
  have c2: "reverseRatio decimal_lib (snd (fetchReserves demo_ratio_state (Some QUICK_TOKEN) (Some MON_TOKEN) (Pairs (Some demo_reserves)))) = Fin 3"
    using p2 [THEN conjunct2, THEN conjunct2, THEN conjunct2, THEN conjunct1]
    by (simp add: lt r n demo_numbers z demo_lib_ops)
  have b3: "ratio decimal_lib (snd (fetchReserves demo_ratio_state (Some QUICK_TOKEN) (Some MON_TOKEN) (Pairs None))) = Fin 1"
    and c3: "reverseRatio decimal_lib (snd (fetchReserves demo_ratio_state (Some QUICK_TOKEN) (Some MON_TOKEN) (Pairs None))) = Fin 1"
    using p3 by (simp_all add: demo_numbers)
  from q1 q2 a1 b1 c1 a2 b2 c2 b3 c3 show ?thesis by (simp add: lt)
qed

section \<open>Adding and removing liquidity\<close>





lemma writes_estimate_and_write:
  "writes (estimate_and_write c resp) =
     [case resp of Inr g \<Rightarrow> c\<lparr>gas := Some ((g * 120) div 100)\<rparr> | Inl _ \<Rightarrow> c]"
  by (simp add: estimate_and_write_def)

lemma args_estimate_and_write:
  "args (case resp of Inr g \<Rightarrow> c\<lparr>gas := Some ((g * 120) div 100)\<rparr> | Inl _ \<Rightarrow> c) = args c"
  "callValue (case resp of Inr g \<Rightarrow> c\<lparr>gas := Some ((g * 120) div 100)\<rparr> | Inl _ \<Rightarrow> c) = callValue c"
  "functionName (case resp of Inr g \<Rightarrow> c\<lparr>gas := Some ((g * 120) div 100)\<rparr> | Inl _ \<Rightarrow> c) = functionName c"
  by (simp_all split: sum.splits)

text \<open>The one call that each of the two functions submits, when it submits.\<close>

lemma addLiquidity_call:
  assumes "addLiquidity lib acct client tokenA tokenB slippage now resp amountA amountB = Inr evs"
  obtains wA wB m c where
    "parseUnits lib amountA (decimals tokenA) = Some wA"
    "parseUnits lib amountB (decimals tokenB) = Some wB"
    "to_bigint (fsub lib (Fin 100) (slippage_or_default slippage)) = Some m"
    "writes evs = [c]"
    "args c =
       (if is_native tokenA
        then [Addr (address tokenB), Big wB, Big (big_div (wB * m) 100), Big (big_div (wA * m) 100),
              Addr (str_or acct []), Big (deadline_of now)]
        else if is_native tokenB
        then [Addr (address tokenA), Big wA, Big (big_div (wA * m) 100), Big (big_div (wB * m) 100),
              Addr (str_or acct []), Big (deadline_of now)]
        else [Addr (address tokenA), Addr (address tokenB), Big wA, Big wB,
              Big (big_div (wA * m) 100), Big (big_div (wB * m) 100),
              Addr (str_or acct []), Big (deadline_of now)])"
    "callValue c = (if is_native tokenA then Some wA else if is_native tokenB then Some wB else None)"
proof -
  from assms obtain wA where wA: "parseUnits lib amountA (decimals tokenA) = Some wA"
    by (cases "parseUnits lib amountA (decimals tokenA)")
       (simp_all add: addLiquidity_def split: if_splits)
  from assms wA obtain wB where wB: "parseUnits lib amountB (decimals tokenB) = Some wB"
    by (cases "parseUnits lib amountB (decimals tokenB)")
       (simp_all add: addLiquidity_def split: if_splits)
  from assms wA wB obtain m where m: "to_bigint (fsub lib (Fin 100) (slippage_or_default slippage)) = Some m"
    by (cases "to_bigint (fsub lib (Fin 100) (slippage_or_default slippage))")
       (simp_all add: addLiquidity_def split: if_splits)
  let ?call = "if is_native tokenA \<or> is_native tokenB
      then router_call ''addLiquidityETH''
           [Addr (if is_native tokenA then address tokenB else address tokenA),
            Big (if is_native tokenA then wB else wA),
            Big (big_div ((if is_native tokenA then wB else wA) * m) 100),
            Big (big_div ((if is_native tokenA then wA else wB) * m) 100),
            Addr (str_or acct []), Big (deadline_of now)]
           (Some (if is_native tokenA then wA else wB))
      else router_call ''addLiquidity''
           [Addr (address tokenA), Addr (address tokenB), Big wA, Big wB,
            Big (big_div (wA * m) 100), Big (big_div (wB * m) 100),
            Addr (str_or acct []), Big (deadline_of now)] None"
  from assms wA wB m have evs: "evs = estimate_and_write ?call resp"
    by (simp add: addLiquidity_def Let_def split: if_splits)
  show thesis
  proof (rule that [OF wA wB m])
    show "writes evs = [case resp of Inr g \<Rightarrow> ?call\<lparr>gas := Some ((g * 120) div 100)\<rparr> | Inl _ \<Rightarrow> ?call]"
      unfolding evs by (rule writes_estimate_and_write)
  qed (simp_all add: args_estimate_and_write router_call_def)
qed

lemma removeLiquidity_call:
  assumes "removeLiquidity lib acct client slippage now resp lpAmount t0 t1 m0 m1 hasWMON = Inr evs"
  obtains m c where
    "to_bigint (fsub lib (Fin 100) (slippage_or_default slippage)) = Some m"
    "writes evs = [c]"
    "args c =
       (if hasWMON
        then if toLowerCase t0 = toLowerCase WMON
             then [Addr t1, Big lpAmount, Big (big_div (m1 * m) 100), Big (big_div (m0 * m) 100),
                   Addr (str_or acct []), Big (deadline_of now)]
             else [Addr t0, Big lpAmount, Big (big_div (m0 * m) 100), Big (big_div (m1 * m) 100),
                   Addr (str_or acct []), Big (deadline_of now)]
        else [Addr t0, Addr t1, Big lpAmount, Big (big_div (m0 * m) 100),
              Big (big_div (m1 * m) 100), Addr (str_or acct []), Big (deadline_of now)])"
proof -
  from assms obtain m where m: "to_bigint (fsub lib (Fin 100) (slippage_or_default slippage)) = Some m"
    by (cases "to_bigint (fsub lib (Fin 100) (slippage_or_default slippage))")
       (simp_all add: removeLiquidity_def split: if_splits)
  let ?call = "if hasWMON
      then router_call ''removeLiquidityETH''
           [Addr (if toLowerCase t0 = toLowerCase WMON then t1 else t0), Big lpAmount,
            Big (if toLowerCase t0 = toLowerCase WMON then big_div (m1 * m) 100 else big_div (m0 * m) 100),
            Big (if toLowerCase t0 = toLowerCase WMON then big_div (m0 * m) 100 else big_div (m1 * m) 100),
            Addr (str_or acct []), Big (deadline_of now)] None
      else router_call ''removeLiquidity''
           [Addr t0, Addr t1, Big lpAmount, Big (big_div (m0 * m) 100), Big (big_div (m1 * m) 100),
            Addr (str_or acct []), Big (deadline_of now)] None"
  from assms m have evs: "evs = estimate_and_write ?call resp"
    by (simp add: removeLiquidity_def Let_def split: if_splits)
  show thesis
  proof (rule that [OF m])
    show "writes evs = [case resp of Inr g \<Rightarrow> ?call\<lparr>gas := Some ((g * 120) div 100)\<rparr> | Inl _ \<Rightarrow> ?call]"
      unfolding evs by (rule writes_estimate_and_write)
  qed (simp add: args_estimate_and_write router_call_def)
qed

text \<open>
  C8. Whenever \<open>addLiquidity\<close> or \<open>removeLiquidity\<close> submits, it submits one call, and
  the last argument of that call, the deadline, is the clock's reading at the start of the
  function in whole seconds plus 1200.
\<close>

theorem deadline_twenty_minutes:
  "(\<forall>evs. addLiquidity lib acct client tokenA tokenB slippage now resp amountA amountB = Inr evs
      \<longrightarrow> length (writes evs) = 1
        \<and> (\<forall>c \<in> set (writes evs). args c \<noteq> [] \<and> last (args c) = Big (int (now div 1000) + 1200)))
   \<and> (\<forall>evs. removeLiquidity lib acct client slippage now resp lpAmount t0 t1 m0 m1 hasWMON = Inr evs
      \<longrightarrow> length (writes evs) = 1
        \<and> (\<forall>c \<in> set (writes evs). args c \<noteq> [] \<and> last (args c) = Big (int (now div 1000) + 1200)))"
proof (intro conjI allI impI)
  fix evs
  assume "addLiquidity lib acct client tokenA tokenB slippage now resp amountA amountB = Inr evs"
  then obtain c where c: "writes evs = [c]" "args c \<noteq> []" "last (args c) = Big (deadline_of now)"
    by (rule addLiquidity_call) (auto split: if_splits)
  then show "length (writes evs) = 1"
    and "\<forall>c \<in> set (writes evs). args c \<noteq> [] \<and> last (args c) = Big (int (now div 1000) + 1200)"
    by (simp_all add: deadline_of_def)
next
  fix evs
  assume "removeLiquidity lib acct client slippage now resp lpAmount t0 t1 m0 m1 hasWMON = Inr evs"
  then obtain c where c: "writes evs = [c]" "args c \<noteq> []" "last (args c) = Big (deadline_of now)"
    by (rule removeLiquidity_call) (auto split: if_splits)
  then show "length (writes evs) = 1"
    and "\<forall>c \<in> set (writes evs). args c \<noteq> [] \<and> last (args c) = Big (int (now div 1000) + 1200)"
    by (simp_all add: deadline_of_def)
qed


lemma demo_tokens_not_native: "\<not> is_native QUICK_TOKEN" "\<not> is_native MMF_TOKEN" "is_native MON_TOKEN"
  by (simp_all add: is_native_def QUICK_TOKEN_def MMF_TOKEN_def MON_TOKEN_def NATIVE_ADDRESS_def)

lemma parse_three: "parseUnits decimal_lib ''3'' 18 = Some 3000000000000000000"
  by (simp add: decimal_lib_def whole_literal_def digit_of_def)

lemma demo_add:
  "addLiquidity decimal_lib (Some ''0x00000000000000000000000000000000000000aa'') True
     QUICK_TOKEN MMF_TOKEN None 1700000000123 (Inr 200000) ''5'' ''3'' =
   Inr (estimate_and_write
     (router_call ''addLiquidity''
        [Addr (address QUICK_TOKEN), Addr (address MMF_TOKEN),
         Big 5000000000000000000, Big 3000000000000000000,
         Big 4500000000000000000, Big 2700000000000000000,
         Addr ''0x00000000000000000000000000000000000000aa'', Big 1700001200] None)
     (Inr 200000))"
proof -
  have d: "decimals QUICK_TOKEN = 18" "decimals MMF_TOKEN = 18"
    by (simp_all add: QUICK_TOKEN_def MMF_TOKEN_def)
  have v: "\<not> js_le (parseFloat decimal_lib ''5'') (Fin 0)" "\<not> js_le (parseFloat decimal_lib ''3'') (Fin 0)"
    by (simp_all add: demo_numbers js_le_def)
  have m: "to_bigint (fsub decimal_lib (Fin 100) (slippage_or_default None)) = Some 90"
    by (simp add: decimal_lib_def slippage_or_default_def)
  show ?thesis
    by (simp add: addLiquidity_def falsy_str_def v d parse_five parse_three m
        demo_tokens_not_native big_div_def deadline_of_def str_or_def)
qed

lemma demo_remove:
  "removeLiquidity decimal_lib (Some ''0x00000000000000000000000000000000000000aa'') True
     None 1700000000123 (Inl (thrown ''execution reverted'')) 1000
     (address QUICK_TOKEN) (address MMF_TOKEN) 500 700 False =
   Inr (estimate_and_write
     (router_call ''removeLiquidity''
        [Addr (address QUICK_TOKEN), Addr (address MMF_TOKEN), Big 1000, Big 450, Big 630,
         Addr ''0x00000000000000000000000000000000000000aa'', Big 1700001200] None)
     (Inl (thrown ''execution reverted'')))"
proof -
  have m: "to_bigint (fsub decimal_lib (Fin 100) (slippage_or_default None)) = Some 90"
    by (simp add: decimal_lib_def slippage_or_default_def)
  show ?thesis
    by (simp add: removeLiquidity_def falsy_str_def m big_div_def deadline_of_def str_or_def)
qed

theorem deadline_twenty_minutes_witness:
  "addLiquidity decimal_lib (Some ''0x00000000000000000000000000000000000000aa'') True
     QUICK_TOKEN MMF_TOKEN None 1700000000123 (Inr 200000) ''5'' ''3'' =
   Inr (estimate_and_write
     (router_call ''addLiquidity''
        [Addr (address QUICK_TOKEN), Addr (address MMF_TOKEN),
         Big 5000000000000000000, Big 3000000000000000000,
         Big 4500000000000000000, Big 2700000000000000000,
         Addr ''0x00000000000000000000000000000000000000aa'', Big 1700001200] None)
     (Inr 200000))
   \<and> length (writes (estimate_and_write
     (router_call ''addLiquidity''
        [Addr (address QUICK_TOKEN), Addr (address MMF_TOKEN),
         Big 5000000000000000000, Big 3000000000000000000,
         Big 4500000000000000000, Big 2700000000000000000,
         Addr ''0x00000000000000000000000000000000000000aa'', Big 1700001200] None)
     (Inr 200000))) = 1
   \<and> removeLiquidity decimal_lib (Some ''0x00000000000000000000000000000000000000aa'') True
     None 1700000000123 (Inl (thrown ''execution reverted'')) 1000
     (address QUICK_TOKEN) (address MMF_TOKEN) 500 700 False =
   Inr (estimate_and_write
     (router_call ''removeLiquidity''
        [Addr (address QUICK_TOKEN), Addr (address MMF_TOKEN), Big 1000, Big 450, Big 630,
         Addr ''0x00000000000000000000000000000000000000aa'', Big 1700001200] None)
     (Inl (thrown ''execution reverted'')))
   \<and> length (writes (estimate_and_write
     (router_call ''removeLiquidity''
        [Addr (address QUICK_TOKEN), Addr (address MMF_TOKEN), Big 1000, Big 450, Big 630,
         Addr ''0x00000000000000000000000000000000000000aa'', Big 1700001200] None)
     (Inl (thrown ''execution reverted'')))) = 1
   \<and> int (1700000000123 div 1000) + 1200 = 1700001200"
  using deadline_twenty_minutes [of decimal_lib "Some ''0x00000000000000000000000000000000000000aa''"
      True QUICK_TOKEN MMF_TOKEN None 1700000000123 "Inr 200000" "''5''" "''3''",
      THEN conjunct1, rule_format, OF demo_add]
    deadline_twenty_minutes [where lib = decimal_lib
      and acct = "Some ''0x00000000000000000000000000000000000000aa''" and client = True
      and slippage = None and now = 1700000000123 and resp = "Inl (thrown ''execution reverted'')"
      and lpAmount = 1000 and ?t0.0 = "address QUICK_TOKEN" and ?t1.0 = "address MMF_TOKEN"
      and ?m0.0 = 500 and ?m1.0 = 700 and hasWMON = False,
      THEN conjunct2, rule_format, OF demo_remove]
    demo_add demo_remove
  by simp








end
